theory Spec2Isabelle
  imports Complex_Main "HOL-Library.Multiset"
begin

section \<open>Optical mark recognition of one exam sheet (omr/exam.py)\<close>

text \<open>
  A shallow embedding of the class \<open>Form\<close> and of the functions \<open>process_exam\<close> and
  \<open>center_on_box\<close>. Python exceptions are values of the type \<open>error\<close>; a method that
  mutates the form returns the new form. Floating-point numbers are modelled by exact
  rationals together with the special values of IEEE arithmetic (see \<open>fl\<close> below), so
  rounding in the last binary digit is abstracted away.
\<close>

subsection \<open>Errors\<close>

datatype error =
    IndexError
  | ValueError
  | AttributeError
  | StandardError
  | IOError

subsection \<open>The form\<close>

text \<open>
  The attributes of \<open>Form\<close>. A rectangle is \<open>(min height, max height, min width, max width)\<close>.
  \<open>info\<close> and \<open>score\<close> are \<open>None\<close> when the attribute is \<open>None\<close> or the empty list, which
  the source treats alike; \<open>refzone = []\<close> stands for both as well. The methods read the
  attribute \<open>ref_rc\<close>, which the class does not declare (it declares \<open>refrc\<close>): it is
  \<open>None\<close> unless the configuration sets it. The attribute \<open>size\<close> is the field
  \<open>size_grid\<close>.
\<close>

type_synonym rect = "int \<times> int \<times> int \<times> int"

record form =
  size_grid :: "int \<times> int"
  offset :: "int \<times> int"
  pos :: "int \<times> int"
  bub :: "rat \<times> rat"
  space :: "rat \<times> rat"
  info :: "rect option"
  score :: "rect option"
  refzone :: "rect list"
  expected_dpi :: "rat \<times> rat"
  expected_size :: "int \<times> int"
  size_tolerance :: "rat \<times> rat"
  refrc :: "int \<times> int"
  ref_rc :: "(int \<times> int) option"
  contrast :: rat
  trim_std :: rat
  radius :: int
  min_ref :: rat
  signal :: rat
  coords :: "rect list list"

text \<open>\<open>astype('i')\<close>: conversion of a float to an integer truncates towards zero.\<close>

definition astype_i :: "rat \<Rightarrow> int" where
  "astype_i q = (if 0 \<le> q then \<lfloor>q\<rfloor> else \<lceil>q\<rceil>)"

text \<open>\<open>num.arange(n)\<close> for an integer \<open>n\<close>: \<open>0, ..., n - 1\<close>, empty when \<open>n \<le> 0\<close>.\<close>

definition arange :: "int \<Rightarrow> int list" where
  "arange n = map int [0..<nat n]"

text \<open>
  \<open>calc_coords\<close>: entry \<open>(i, j)\<close> of the \<open>(m, n, 4)\<close> matrix is
  \<open>(i0, i1, j0, j1)\<close> with \<open>i0 = pos[0] + i * space[0]\<close>, \<open>i1 = i0 + bub[0]\<close>,
  \<open>j0 = pos[1] + j * space[1]\<close>, \<open>j1 = j0 + bub[1]\<close>, each converted by \<open>astype('i')\<close>.
\<close>

definition coords_cell :: "form \<Rightarrow> int \<Rightarrow> int \<Rightarrow> rect" where
  "coords_cell f i j =
     (astype_i (of_int (fst (pos f)) + (of_int i * fst (space f))),
      astype_i (of_int (fst (pos f)) + (of_int i * fst (space f)) + fst (bub f)),
      astype_i (of_int (snd (pos f)) + (of_int j * snd (space f))),
      astype_i (of_int (snd (pos f)) + (of_int j * snd (space f)) + snd (bub f)))"

definition calc_coords :: "form \<Rightarrow> form" where
  "calc_coords f =
     f\<lparr>coords := map (\<lambda>i. map (\<lambda>j. coords_cell f i j) (arange (snd (size_grid f))))
                     (arange (fst (size_grid f)))\<rparr>"

definition shift_rect :: "int \<Rightarrow> int \<Rightarrow> rect \<Rightarrow> rect" where
  "shift_rect r c = (\<lambda>(a, b, d, e). (a + r, b + r, d + c, e + c))"

text \<open>
  \<open>set_offset\<close>: add \<open>(r, c)\<close> to \<open>offset\<close> and to \<open>pos\<close>, translate \<open>info\<close> and \<open>score\<close>
  when they are set, recompute \<open>coords\<close>.
\<close>

definition set_offset :: "int \<Rightarrow> int \<Rightarrow> form \<Rightarrow> form" where
  "set_offset r c f =
     (let f1 = f\<lparr>offset := (fst (offset f) + r, snd (offset f) + c)\<rparr>;
          f2 = f1\<lparr>pos := (fst (pos f1) + r, snd (pos f1) + c)\<rparr>;
          f3 = (case info f2 of None \<Rightarrow> f2
                | Some re \<Rightarrow> f2\<lparr>info := Some (shift_rect r c re)\<rparr>);
          f4 = (case score f3 of None \<Rightarrow> f3
                | Some re \<Rightarrow> f3\<lparr>score := Some (shift_rect r c re)\<rparr>)
      in calc_coords f4)"

text \<open>The class attributes of \<open>Form\<close> before any configuration is applied.\<close>

definition default_form :: form where
  "default_form =
     \<lparr>size_grid = (0, 0), offset = (0, 0), pos = (0, 0), bub = (0, 0), space = (0, 0),
      info = None, score = None, refzone = [],
      expected_dpi = (0, 0), expected_size = (0, 0), size_tolerance = (0, 0),
      refrc = (0, 0), ref_rc = None,
      contrast = 0, trim_std = 0, radius = 0, min_ref = 0, signal = 0,
      coords = []\<rparr>"

subsection \<open>Floating-point values and two-dimensional arrays\<close>

text \<open>
  A float is a rational, an infinity or not-a-number. Division and comparison follow
  IEEE 754 as numpy applies it: a division by zero gives an infinity or \<open>NaN\<close> (with a
  warning, not an exception), and every comparison with \<open>NaN\<close> is false. Signed zeros
  are not distinguished.
\<close>

datatype fl = Fin rat | PInf | NInf | NaN

fun fdiv :: "fl \<Rightarrow> fl \<Rightarrow> fl" where
  "fdiv NaN _ = NaN"
| "fdiv _ NaN = NaN"
| "fdiv (Fin a) (Fin b) =
     (if b \<noteq> 0 then Fin (a / b) else if 0 < a then PInf else if a < 0 then NInf else NaN)"
| "fdiv (Fin a) PInf = Fin 0"
| "fdiv (Fin a) NInf = Fin 0"
| "fdiv PInf (Fin b) = (if 0 \<le> b then PInf else NInf)"
| "fdiv NInf (Fin b) = (if 0 \<le> b then NInf else PInf)"
| "fdiv PInf PInf = NaN"
| "fdiv PInf NInf = NaN"
| "fdiv NInf PInf = NaN"
| "fdiv NInf NInf = NaN"

fun fle :: "fl \<Rightarrow> fl \<Rightarrow> bool" where
  "fle NaN _ = False"
| "fle _ NaN = False"
| "fle NInf _ = True"
| "fle _ PInf = True"
| "fle (Fin a) (Fin b) = (a \<le> b)"
| "fle (Fin a) NInf = False"
| "fle PInf (Fin b) = False"
| "fle PInf NInf = False"

text \<open>
  A two-dimensional numpy array: its rows, and its number of columns (which the rows
  cannot tell when there are none). \<open>shape\<close> is \<open>img.shape\<close>.
\<close>

record 'a array2 =
  rows :: "'a list list"
  ncols :: nat

definition shape :: "'a array2 \<Rightarrow> nat \<times> nat" where
  "shape a = (length (rows a), ncols a)"

definition wf_array :: "'a array2 \<Rightarrow> bool" where
  "wf_array a = list_all (\<lambda>r. length r = ncols a) (rows a)"

subsection \<open>Size check\<close>

text \<open>
  \<open>check_size\<close>: \<open>absdiff = |img.shape - expected_size|\<close>,
  \<open>pctdiff = absdiff / expected_size\<close> (true division, so a float), and StandardError
  unless \<open>pctdiff <= size_tolerance\<close> on both axes. It returns nothing and reads only the
  shape of the image.
\<close>

definition pctdiff :: "int \<Rightarrow> int \<Rightarrow> fl" where
  "pctdiff d e = fdiv (Fin (of_int \<bar>d - e\<bar>)) (Fin (of_int e))"

definition check_size :: "form \<Rightarrow> 'a array2 \<Rightarrow> error + unit" where
  "check_size f img =
     (if \<not> (fle (pctdiff (int (fst (shape img))) (fst (expected_size f)))
                 (Fin (fst (size_tolerance f))) \<and>
             fle (pctdiff (int (snd (shape img))) (snd (expected_size f)))
                 (Fin (snd (size_tolerance f))))
      then Inl StandardError
      else Inr ())"

subsection \<open>Answer choice\<close>

text \<open>
  \<open>num.argmin\<close> along a row: the index of the first minimum; a \<open>NaN\<close> counts as smaller
  than everything, and the scan stops at the first one. The row must not be empty.
\<close>

fun argmin_from :: "fl \<Rightarrow> nat \<Rightarrow> nat \<Rightarrow> fl list \<Rightarrow> nat" where
  "argmin_from mp mi i [] = mi"
| "argmin_from mp mi i (x # xs) =
     (if mp = NaN then mi
      else if \<not> fle mp x then argmin_from x i (Suc i) xs
      else argmin_from mp mi (Suc i) xs)"

definition argmin_row :: "fl list \<Rightarrow> nat" where
  "argmin_row r = (case r of [] \<Rightarrow> 0 | x # xs \<Rightarrow> argmin_from x 0 1 xs)"

text \<open>\<open>num.sort\<close> along a row: ascending, every \<open>NaN\<close> at the end.\<close>

definition sort_le :: "fl \<Rightarrow> fl \<Rightarrow> bool" where
  "sort_le a b = (b = NaN \<or> (a \<noteq> NaN \<and> fle a b))"

fun insort_fl :: "fl \<Rightarrow> fl list \<Rightarrow> fl list" where
  "insort_fl x [] = [x]"
| "insort_fl x (y # ys) = (if sort_le x y then x # y # ys else y # insort_fl x ys)"

fun sort_fl :: "fl list \<Rightarrow> fl list" where
  "sort_fl [] = []"
| "sort_fl (x # xs) = insort_fl x (sort_fl xs)"

text \<open>
  \<open>choose_answers\<close>: \<open>choice = argmin(means, axis=1)\<close> (ValueError when the rows have no
  column); when \<open>signal\<close> is not zero, \<open>sorted_rows[:,1] / sorted_rows[:,0]\<close> (IndexError
  when there is no column 1) is compared with \<open>signal\<close> and \<open>-1\<close> is written where it
  is \<open><=\<close>.
\<close>

definition choose_answers :: "form \<Rightarrow> fl array2 \<Rightarrow> error + int list" where
  "choose_answers f means =
     (if ncols means = 0 then Inl ValueError
      else
        let choice = map (\<lambda>r. int (argmin_row r)) (rows means)
        in if signal f \<noteq> 0 then
             (if ncols means < 2 then Inl IndexError
              else
                let sorted_rows = map sort_fl (rows means);
                    sig = map (\<lambda>r. fdiv (r ! 1) (r ! 0)) sorted_rows
                in Inr (map (\<lambda>(c, s). if fle s (Fin (signal f)) then - 1 else c)
                          (zip choice sig)))
           else Inr choice)"

subsection \<open>Slices, means and binarisation\<close>

text \<open>
  A slice bound \<open>k\<close> on an axis of length \<open>n\<close>, as Python resolves it: a negative bound
  counts from the end, and the result is clipped to \<open>0 .. n\<close>. \<open>xs[a:b]\<close> is empty when
  the resolved start is not before the resolved stop.
\<close>

definition slice_bound :: "nat \<Rightarrow> int \<Rightarrow> nat" where
  "slice_bound n k = (if k < 0 then nat (max (k + int n) 0) else min (nat k) n)"

definition pyslice :: "int \<Rightarrow> int \<Rightarrow> 'a list \<Rightarrow> 'a list" where
  "pyslice a b xs =
     take (slice_bound (length xs) b - slice_bound (length xs) a)
          (drop (slice_bound (length xs) a) xs)"

text \<open>\<open>img[a:b, c:d]\<close>.\<close>

definition slice2 :: "int \<Rightarrow> int \<Rightarrow> int \<Rightarrow> int \<Rightarrow> 'a array2 \<Rightarrow> 'a array2" where
  "slice2 a b c d img =
     \<lparr>rows = map (pyslice c d) (pyslice a b (rows img)),
      ncols = slice_bound (ncols img) d - slice_bound (ncols img) c\<rparr>"

text \<open>\<open>num.mean\<close> of an integer array: \<open>NaN\<close> (and a warning) when the array has no element.\<close>

definition mean :: "int array2 \<Rightarrow> fl" where
  "mean a =
     (if concat (rows a) = [] then NaN
      else Fin (of_int (sum_list (concat (rows a))) / of_int (int (length (concat (rows a))))))"

text \<open>\<open>255 * (img >= contrast)\<close>.\<close>

definition binarize :: "rat \<Rightarrow> int array2 \<Rightarrow> int array2" where
  "binarize c img =
     \<lparr>rows = map (map (\<lambda>p. if c \<le> of_int p then 255 else 0)) (rows img), ncols = ncols img\<rparr>"

subsection \<open>Reference boxes\<close>

text \<open>
  The candidate offsets of \<open>center_on_box\<close>. \<open>num.arange(-radius, radius)\<close> is
  \<open>-radius, ..., radius - 1\<close>. \<open>meshgrid\<close> and \<open>flatten\<close> enumerate the pairs \<open>(i, j)\<close> with
  \<open>j\<close> in the outer loop and \<open>i\<close> in the inner one; a pair is kept when
  \<open>(i**2 + j**2)**0.5 <= radius\<close>.
\<close>

definition within_radius :: "int \<Rightarrow> int \<Rightarrow> int \<Rightarrow> bool" where
  "within_radius rad i j = (sqrt (of_int (i\<^sup>2 + j\<^sup>2)) \<le> of_int rad)"

definition box_coords :: "int \<Rightarrow> (int \<times> int) list" where
  "box_coords rad =
     filter (\<lambda>(i, j). within_radius rad i j)
       (concat (map (\<lambda>j. map (\<lambda>i. (i, j)) [- rad..rad - 1]) [- rad..rad - 1]))"

text \<open>The order of that enumeration: by column offset, then by row offset.\<close>

definition col_then_row :: "int \<times> int \<Rightarrow> int \<times> int \<Rightarrow> bool" where
  "col_then_row p q = (snd p < snd q \<or> (snd p = snd q \<and> fst p < fst q))"

text \<open>
  \<open>num.nanmin\<close> reduces with \<open>fmin\<close>, which ignores a \<open>NaN\<close> operand; the result is \<open>NaN\<close>
  only if every element is. \<open>num.nanargmin\<close> replaces every \<open>NaN\<close> by \<open>+inf\<close> and takes
  \<open>argmin\<close>.
\<close>

definition fmin :: "fl \<Rightarrow> fl \<Rightarrow> fl" where
  "fmin a b = (if a = NaN then b else if b = NaN then a else if fle a b then a else b)"

definition nanmin :: "fl list \<Rightarrow> fl" where
  "nanmin xs = foldl fmin (hd xs) (tl xs)"

definition nanargmin :: "fl list \<Rightarrow> nat" where
  "nanargmin xs = argmin_row (map (\<lambda>x. if x = NaN then PInf else x) xs)"

definition na_val :: int where
  "na_val = - 9999"

text \<open>
  \<open>center_on_box\<close>: the mean of the rectangle translated by each candidate offset; the
  first candidate with the smallest mean if that mean is \<open><= min_ref\<close>, else
  \<open>[na_val, na_val]\<close>. \<open>nanmin\<close> of an empty list raises ValueError.
\<close>

definition box_fit :: "int array2 \<Rightarrow> int \<Rightarrow> int \<Rightarrow> int \<Rightarrow> int \<Rightarrow> int \<Rightarrow> fl list" where
  "box_fit img rad xmin xmax ymin ymax =
     map (\<lambda>(i, j). mean (slice2 (xmin + i) (xmax + i) (ymin + j) (ymax + j) img))
       (box_coords rad)"

definition center_on_box ::
    "int array2 \<Rightarrow> int \<Rightarrow> rat \<Rightarrow> int \<Rightarrow> int \<Rightarrow> int \<Rightarrow> int \<Rightarrow> error + (int \<times> int)" where
  "center_on_box img rad minref xmin xmax ymin ymax =
     (let fit = box_fit img rad xmin xmax ymin ymax
      in if fit = [] then Inl ValueError
         else if fle (nanmin fit) (Fin minref) then Inr (box_coords rad ! nanargmin fit)
         else Inr (na_val, na_val))"

text \<open>
  \<open>fit_reference\<close>. \<open>fit\<close> is a Python list, so the mask \<open>fit == -9999\<close> compares a list
  with an integer and is the single value \<open>False\<close>: no entry of the masked array is
  masked, the mean along axis 0 runs over every box, and \<open>meanfit[0]\<close> is masked only if
  the mask is true, in which case StandardError is raised. \<open>process_exam\<close> calls the
  method with a non-empty \<open>refzone\<close> only; on an empty one the mean is a masked value
  without dimension, and indexing it raises.
\<close>

fun map_err :: "('a \<Rightarrow> error + 'b) \<Rightarrow> 'a list \<Rightarrow> error + 'b list" where
  "map_err g [] = Inr []"
| "map_err g (x # xs) =
     (case g x of Inl e \<Rightarrow> Inl e
      | Inr y \<Rightarrow> (case map_err g xs of Inl e \<Rightarrow> Inl e | Inr ys \<Rightarrow> Inr (y # ys)))"

definition list_eq_int :: "(int \<times> int) list \<Rightarrow> int \<Rightarrow> bool" where
  "list_eq_int fit n = False"

definition fit_reference ::
    "form \<Rightarrow> int array2 \<Rightarrow> error + ((int \<times> int) \<times> (int \<times> int) list)" where
  "fit_reference f img =
     (let bw_img = binarize (contrast f) img
      in case map_err (\<lambda>(xmin, xmax, ymin, ymax).
                 center_on_box bw_img (radius f) (min_ref f) xmin xmax ymin ymax) (refzone f) of
           Inl e \<Rightarrow> Inl e
         | Inr fit \<Rightarrow>
             let mask = list_eq_int fit (- 9999)
             in if fit = [] then Inl IndexError
                else if mask then Inl StandardError
                else
                  let meanfit =
                        (astype_i (of_int (sum_list (map fst fit)) / of_int (int (length fit))),
                         astype_i (of_int (sum_list (map snd fit)) / of_int (int (length fit))))
                  in Inr (meanfit, fit))"

subsection \<open>Margin trimming\<close>

text \<open>
  \<open>num.rot90\<close>: a quarter turn counterclockwise. Row \<open>i\<close> of the result is column
  \<open>ncols - 1 - i\<close> of the argument; the shape \<open>(h, w)\<close> becomes \<open>(w, h)\<close>.
\<close>

definition rot90 :: "'a array2 \<Rightarrow> 'a array2" where
  "rot90 m =
     \<lparr>rows = map (\<lambda>i. map (\<lambda>r. r ! (ncols m - 1 - i)) (rows m)) [0..<ncols m],
      ncols = length (rows m)\<rparr>"

text \<open>
  \<open>num.std(row) < trim_std\<close>: the population standard deviation of the row. The
  standard deviation of an empty row is \<open>NaN\<close>, and the comparison is then false.
\<close>

definition variance :: "int list \<Rightarrow> rat" where
  "variance xs =
     (let mu = of_int (sum_list xs) / of_int (int (length xs))
      in sum_list (map (\<lambda>x. (of_int x - mu)\<^sup>2) xs) / of_int (int (length xs)))"

definition std_lt :: "int list \<Rightarrow> rat \<Rightarrow> bool" where
  "std_lt xs t = (xs \<noteq> [] \<and> sqrt (real_of_rat (variance xs)) < real_of_rat t)"

text \<open>
  One step of the inner loop: rotate, then drop the first row if its standard deviation
  is low. \<open>img[0, :]\<close> raises IndexError when the rotated image has no row.
\<close>

definition trim_edge :: "rat \<Rightarrow> int array2 \<Rightarrow> error + int array2" where
  "trim_edge t img =
     (let img1 = rot90 img
      in if rows img1 = [] then Inl IndexError
         else if std_lt (hd (rows img1)) t then Inr (img1\<lparr>rows := tl (rows img1)\<rparr>)
         else Inr img1)"

definition bind_err :: "error + 'a \<Rightarrow> ('a \<Rightarrow> error + 'b) \<Rightarrow> error + 'b" where
  "bind_err m g = (case m of Inl e \<Rightarrow> Inl e | Inr x \<Rightarrow> g x)"

text \<open>\<open>for i in range(4)\<close>: the step, four times.\<close>

definition trim_pass :: "rat \<Rightarrow> int array2 \<Rightarrow> error + int array2" where
  "trim_pass t img =
     bind_err (bind_err (bind_err (trim_edge t img) (trim_edge t)) (trim_edge t)) (trim_edge t)"

text \<open>
  \<open>trim_margins\<close>: \<open>oldsize = (0, 0)\<close>, and while \<open>oldsize != img.shape\<close> the shape is
  remembered and the four steps are run.
\<close>

function trim_loop :: "rat \<Rightarrow> nat \<times> nat \<Rightarrow> int array2 \<Rightarrow> error + int array2" where
  "trim_loop t oldsize img =
     (if oldsize \<noteq> shape img
      then (case trim_pass t img of Inl e \<Rightarrow> Inl e | Inr img' \<Rightarrow> trim_loop t (shape img) img')
      else Inr img)"
  by pat_completeness auto

definition trim_margins :: "form \<Rightarrow> int array2 \<Rightarrow> error + int array2" where
  "trim_margins f img = trim_loop (trim_std f) (0, 0) img"

subsection \<open>Bubble means\<close>

text \<open>\<open>self.coords[i, j, :]\<close>, with the IndexError of an index outside the matrix.\<close>

definition coords_at :: "form \<Rightarrow> int \<Rightarrow> int \<Rightarrow> error + rect" where
  "coords_at f i j =
     (if 0 \<le> i \<and> nat i < length (coords f) \<and> 0 \<le> j \<and> nat j < length (coords f ! nat i)
      then Inr (coords f ! nat i ! nat j) else Inl IndexError)"

text \<open>
  \<open>get_bubble_means\<close>: for every \<open>(i, j)\<close> of \<open>product(range(size[0]), range(size[1]))\<close>
  the mean of the binarised image inside the rectangle \<open>coords[i, j]\<close>.
\<close>

definition get_bubble_means :: "form \<Rightarrow> int array2 \<Rightarrow> error + fl array2" where
  "get_bubble_means f img =
     (let bw_img = binarize (contrast f) img
      in bind_err
           (map_err (\<lambda>i. map_err (\<lambda>j.
                bind_err (coords_at f i j)
                  (\<lambda>(i0, i1, j0, j1). Inr (mean (slice2 i0 i1 j0 j1 bw_img))))
              (arange (snd (size_grid f)))) (arange (fst (size_grid f))))
           (\<lambda>ms. Inr \<lparr>rows = ms, ncols = nat (snd (size_grid f))\<rparr>))"

subsection \<open>Overlays and output images\<close>

text \<open>\<open>img[a:b, c:d] = v\<close>.\<close>

definition assign2 :: "int \<Rightarrow> int \<Rightarrow> int \<Rightarrow> int \<Rightarrow> 'a \<Rightarrow> 'a array2 \<Rightarrow> 'a array2" where
  "assign2 a b c d v img =
     img\<lparr>rows :=
       map (\<lambda>(i, row).
              if slice_bound (length (rows img)) a \<le> i \<and> i < slice_bound (length (rows img)) b
              then map (\<lambda>(j, x).
                     if slice_bound (ncols img) c \<le> j \<and> j < slice_bound (ncols img) d
                     then v else x) (zip [0..<length row] row)
              else row)
           (zip [0..<length (rows img)] (rows img))\<rparr>"

text \<open>
  The local function \<open>plus\<close> of \<open>overlay_ref_fit\<close> (here \<open>plus_cross\<close>): a cross of
  half-width \<open>r\<close>, as two slice assignments.
\<close>

definition plus_cross :: "int array2 \<Rightarrow> int \<Rightarrow> int \<Rightarrow> int \<Rightarrow> int \<Rightarrow> int array2" where
  "plus_cross img x y val r =
     assign2 (x - r) (x + r) (y - 1) y val (assign2 (x - 1) x (y - r) (y + r) val img)"

definition plus_box :: "int array2 \<Rightarrow> rect \<times> (int \<times> int) \<times> (int \<times> int) \<Rightarrow> int array2" where
  "plus_box img = (\<lambda>((x0, x1, y0, y1), (x_off, y_off), (cx, cy)).
     (let img1 = plus_cross img cx cy 120 15;
          img2 = plus_cross img1 (cx + x_off) (cy + y_off) 0 10;
          img3 = plus_cross img2 x0 y0 150 10;
          img4 = plus_cross img3 x1 y1 150 10;
          img5 = plus_cross img4 (x0 + x_off) (y0 + y_off) 0 10
      in plus_cross img5 (x1 + x_off) (y1 + y_off) 0 10))"

text \<open>
  \<open>overlay_ref_fit\<close> (with \<open>off = 25\<close>): nothing unless there are four reference boxes;
  reading \<open>self.ref_rc\<close> raises AttributeError when the attribute is not set.
\<close>

definition overlay_ref_fit ::
    "form \<Rightarrow> int array2 \<Rightarrow> int \<times> int \<Rightarrow> (int \<times> int) list \<Rightarrow> error + int array2" where
  "overlay_ref_fit f img mean_off fit =
     (if length (refzone f) \<noteq> 4 then Inr img
      else case ref_rc f of
        None \<Rightarrow> Inl AttributeError
      | Some (r0, c0) \<Rightarrow>
          (let centers = [(r0 - 25, c0 - 25), (r0 - 25, c0 + 25),
                          (r0 + 25, c0 - 25), (r0 + 25, c0 + 25)];
               img1 = plus_cross img r0 c0 150 15;
               img2 = plus_cross img1 (r0 + fst mean_off) (c0 + snd mean_off) 0 10
           in Inr (foldl plus_box img2 (zip (refzone f) (zip fit centers)))))"

text \<open>
  A float stored into the 8-bit image is truncated. The value a \<open>NaN\<close> would give is
  platform dependent; it is never stored, since the mean of a rectangle is \<open>NaN\<close> only
  when the rectangle is empty.
\<close>

definition to_uint8 :: "fl \<Rightarrow> int" where
  "to_uint8 x = (case x of Fin q \<Rightarrow> astype_i q mod 256 | _ \<Rightarrow> 0)"

definition means_at :: "fl array2 \<Rightarrow> int \<Rightarrow> int \<Rightarrow> error + fl" where
  "means_at means i j =
     (if 0 \<le> i \<and> nat i < length (rows means) \<and> 0 \<le> j \<and> nat j < length (rows means ! nat i)
      then Inr (rows means ! nat i ! nat j) else Inl IndexError)"

definition overlay_cell :: "form \<Rightarrow> fl array2 \<Rightarrow> error + int array2 \<Rightarrow> int \<times> int \<Rightarrow> error + int array2" where
  "overlay_cell f means acc = (\<lambda>(i, j).
     bind_err acc (\<lambda>img.
       bind_err (coords_at f i j) (\<lambda>(i0, i1, j0, j1).
         bind_err (means_at means i j) (\<lambda>m. Inr (assign2 i0 i1 j0 j1 (to_uint8 m) img)))))"

definition overlay_bubble_means :: "form \<Rightarrow> int array2 \<Rightarrow> fl array2 \<Rightarrow> error + int array2" where
  "overlay_bubble_means f img means =
     foldl (overlay_cell f means) (Inr img)
       (concat (map (\<lambda>i. map (\<lambda>j. (i, j)) (arange (snd (size_grid f)))) (arange (fst (size_grid f)))))"

text \<open>
  What lies outside the source: the image that \<open>load_image\<close> returns for the file (or the
  error it raises), and the outcome of the two \<open>Image.fromarray(...).save(...)\<close> calls.
\<close>

record world =
  load_image :: "error + int array2"
  save_name :: "int array2 \<Rightarrow> error + unit"
  save_validation :: "int array2 \<Rightarrow> error + unit"

text \<open>\<open>num.hstack\<close> of two arrays: ValueError unless they have the same number of rows.\<close>

definition hstack :: "'a array2 \<Rightarrow> 'a array2 \<Rightarrow> error + 'a array2" where
  "hstack a b =
     (if length (rows a) \<noteq> length (rows b) then Inl ValueError
      else Inr \<lparr>rows = map (\<lambda>(r, s). r @ s) (zip (rows a) (rows b)), ncols = ncols a + ncols b\<rparr>)"

text \<open>
  \<open>write_info_image\<close>: the info rectangle, rotated; with a score rectangle, rows 30 to 75
  of it beside the rotated score rectangle; then the image is saved. Nothing is done when
  \<open>info\<close> is unset. (After \<open>set_offset\<close> the rectangles are arrays; the tests
  \<open>not in [[], None]\<close> are taken to hold for them.)
\<close>

definition write_info_image :: "world \<Rightarrow> form \<Rightarrow> int array2 \<Rightarrow> error + unit" where
  "write_info_image w f img =
     (case info f of
        None \<Rightarrow> Inr ()
      | Some (xmin, xmax, ymin, ymax) \<Rightarrow>
          (let nameimg = rot90 (slice2 xmin xmax ymin ymax img)
           in case score f of
                None \<Rightarrow> save_name w nameimg
              | Some (smin, smax, tmin, tmax) \<Rightarrow>
                  bind_err
                    (hstack (nameimg\<lparr>rows := pyslice 30 75 (rows nameimg)\<rparr>)
                            (rot90 (slice2 smin smax tmin tmax img)))
                    (save_name w)))"

definition write_validation :: "world \<Rightarrow> int array2 \<Rightarrow> error + unit" where
  "write_validation w img = save_validation w img"

subsection \<open>Processing one exam\<close>

text \<open>
  \<open>process_exam\<close>. \<open>Form(config)\<close> applies the configuration and calls \<open>calc_coords\<close>.
  The function has no \<open>try\<close>: an exception of any step ends it.
\<close>

definition fit_step :: "form \<Rightarrow> int array2 \<Rightarrow> error + form \<times> int array2" where
  "fit_step f img =
     (if refzone f \<noteq> [] then
        bind_err (fit_reference f img) (\<lambda>(meanfit, fit).
          bind_err (overlay_ref_fit f img meanfit fit) (\<lambda>img1.
            Inr (set_offset (fst meanfit) (snd meanfit) f, img1)))
      else Inr (f, img))"

definition process_exam :: "world \<Rightarrow> form \<Rightarrow> error + int list" where
  "process_exam w config =
     (let f = calc_coords config
      in bind_err (load_image w) (\<lambda>img0.
         bind_err (trim_margins f img0) (\<lambda>img1.
         bind_err (check_size f img1) (\<lambda>_.
         bind_err (fit_step f img1) (\<lambda>(f1, img2).
         bind_err (get_bubble_means f1 img2) (\<lambda>bubble_means.
         bind_err (choose_answers f1 bubble_means) (\<lambda>choice.
         bind_err (overlay_bubble_means f1 img2 bubble_means) (\<lambda>img3.
         bind_err (write_info_image w f1 img3) (\<lambda>_.
         bind_err (write_validation w img3) (\<lambda>_.
         Inr choice))))))))))"

subsection \<open>A small sheet\<close>

text \<open>
  A grid of one question with two choices on a 2 x 2 image, used to run the pipeline:
  the bubble \<open>(0, 0)\<close> is dark, the bubble \<open>(0, 1)\<close> is light.
\<close>

abbreviation sheet_config :: "rect option \<Rightarrow> rect option \<Rightarrow> form" where
  "sheet_config a b \<equiv>
     default_form\<lparr>size_grid := (1, 2), bub := (1, 1), space := (1, 1), info := a, score := b,
                   expected_size := (2, 2), contrast := 5\<rparr>"

abbreviation sheet_form :: "rect option \<Rightarrow> rect option \<Rightarrow> form" where
  "sheet_form a b \<equiv>
     \<lparr>size_grid = (1, 2), offset = (0, 0), pos = (0, 0), bub = (1, 1), space = (1, 1),
      info = a, score = b, refzone = [],
      expected_dpi = (0, 0), expected_size = (2, 2), size_tolerance = (0, 0),
      refrc = (0, 0), ref_rc = None,
      contrast = 5, trim_std = 0, radius = 0, min_ref = 0, signal = 0,
      coords = [[(0, 1, 0, 1), (0, 1, 1, 2)]]\<rparr>"

abbreviation sheet_img :: "int array2" where
  "sheet_img \<equiv> \<lparr>rows = [[0, 9], [9, 0]], ncols = 2\<rparr>"

section \<open>Properties\<close>

subsection \<open>Geometry\<close>

lemma coords_cell_cong:
  "pos f = pos g \<Longrightarrow> space f = space g \<Longrightarrow> bub f = bub g \<Longrightarrow>
     coords_cell f = coords_cell g"
  by (intro ext) (simp add: coords_cell_def)

lemma coords_calc_coords_cong:
  "pos f = pos g \<Longrightarrow> space f = space g \<Longrightarrow> bub f = bub g \<Longrightarrow> size_grid f = size_grid g \<Longrightarrow>
     coords (calc_coords f) = coords (calc_coords g)"
  using coords_cell_cong [of f g] by (simp add: calc_coords_def)

lemma calc_coords_idem: "calc_coords (calc_coords f) = calc_coords f"
  by (simp add: calc_coords_def coords_cell_def)

lemma set_offset_geometry:
  "pos (set_offset r c f) = (fst (pos f) + r, snd (pos f) + c) \<and>
   space (set_offset r c f) = space f \<and> bub (set_offset r c f) = bub f \<and>
   size_grid (set_offset r c f) = size_grid f"
  by (simp add: set_offset_def calc_coords_def Let_def split: option.splits)

text \<open>
  Claim C8. For every geometry and every translation \<open>(r, c)\<close>, the coordinate matrix
  after \<open>set_offset r c\<close>, and the one obtained by recomputing the coordinates after it,
  are the coordinate matrix computed from the geometry whose \<open>pos\<close> is shifted by \<open>(r, c)\<close>.
\<close>

theorem set_offset_linear:
  "coords (calc_coords (set_offset r c f))
     = coords (calc_coords (f\<lparr>pos := (fst (pos f) + r, snd (pos f) + c)\<rparr>)) \<and>
   coords (set_offset r c f)
     = coords (calc_coords (f\<lparr>pos := (fst (pos f) + r, snd (pos f) + c)\<rparr>))"
proof -
  let ?g = "f\<lparr>pos := (fst (pos f) + r, snd (pos f) + c)\<rparr>"
  have same: "coords (calc_coords (set_offset r c f)) = coords (calc_coords ?g)"
    by (rule coords_calc_coords_cong) (simp_all add: set_offset_geometry)
  have "set_offset r c f = calc_coords (set_offset r c f)"
    by (simp add: set_offset_def Let_def calc_coords_idem)
  with same show ?thesis by simp
qed

text \<open>
  Claim C10. \<open>set_offset r c\<close> changes only \<open>offset\<close>, \<open>pos\<close>, the rectangles \<open>info\<close> and
  \<open>score\<close> (translated when they are set, left unset otherwise) and the derived \<open>coords\<close>;
  every other attribute keeps its value.
\<close>

theorem set_offset_frame:
  "size_grid (set_offset r c f) = size_grid f \<and>
   bub (set_offset r c f) = bub f \<and>
   space (set_offset r c f) = space f \<and>
   refzone (set_offset r c f) = refzone f \<and>
   expected_dpi (set_offset r c f) = expected_dpi f \<and>
   expected_size (set_offset r c f) = expected_size f \<and>
   size_tolerance (set_offset r c f) = size_tolerance f \<and>
   contrast (set_offset r c f) = contrast f \<and>
   trim_std (set_offset r c f) = trim_std f \<and>
   radius (set_offset r c f) = radius f \<and>
   min_ref (set_offset r c f) = min_ref f \<and>
   signal (set_offset r c f) = signal f \<and>
   refrc (set_offset r c f) = refrc f \<and>
   ref_rc (set_offset r c f) = ref_rc f \<and>
   offset (set_offset r c f) = (fst (offset f) + r, snd (offset f) + c) \<and>
   pos (set_offset r c f) = (fst (pos f) + r, snd (pos f) + c) \<and>
   info (set_offset r c f) = map_option (shift_rect r c) (info f) \<and>
   score (set_offset r c f) = map_option (shift_rect r c) (score f)"
  by (simp add: set_offset_def calc_coords_def Let_def split: option.splits)

subsection \<open>Order of floats, sorting and argmin\<close>

lemma fle_refl: "a \<noteq> NaN \<Longrightarrow> fle a a"
  by (cases a) simp_all

lemma fle_total: "a \<noteq> NaN \<Longrightarrow> b \<noteq> NaN \<Longrightarrow> fle a b \<or> fle b a"
  by (cases a; cases b) auto

lemma fle_trans: "fle a b \<Longrightarrow> fle b c \<Longrightarrow> fle a c"
  by (cases a; cases b; cases c) auto

lemma fle_antisym: "fle a b \<Longrightarrow> fle b a \<Longrightarrow> a = b"
  by (cases a; cases b) auto

lemma fle_not_NaN: "fle a b \<Longrightarrow> a \<noteq> NaN \<and> b \<noteq> NaN"
  by (cases a; cases b) auto

lemma sort_le_total: "sort_le a b \<or> sort_le b a"
  unfolding sort_le_def by (cases a; cases b) auto

lemma sort_le_trans: "sort_le a b \<Longrightarrow> sort_le b c \<Longrightarrow> sort_le a c"
  unfolding sort_le_def by (cases a; cases b; cases c) auto

lemma mset_insort_fl: "mset (insort_fl x xs) = add_mset x (mset xs)"
  by (induction xs) auto

lemma mset_sort_fl: "mset (sort_fl xs) = mset xs"
  by (induction xs) (auto simp: mset_insort_fl)

lemma set_insort_fl: "set (insort_fl x xs) = insert x (set xs)"
  by (induction xs) auto

lemma sorted_insort_fl: "sorted_wrt sort_le xs \<Longrightarrow> sorted_wrt sort_le (insort_fl x xs)"
proof (induction xs)
  case Nil
  then show ?case by simp
next
  case (Cons y ys)
  show ?case
  proof (cases "sort_le x y")
    case True
    with Cons.prems show ?thesis
      by (auto intro: sort_le_trans)
  next
    case False
    then have "sort_le y x" using sort_le_total by blast
    with Cons False show ?thesis
      by (auto simp: set_insort_fl)
  qed
qed

lemma sorted_sort_fl: "sorted_wrt sort_le (sort_fl xs)"
  by (induction xs) (auto intro: sorted_insort_fl)

lemma length_sort_fl: "length (sort_fl xs) = length xs"
  using mset_sort_fl [of xs] by (metis size_mset)

lemma argmin_from_spec:
  assumes "NaN \<notin> set xs" "length pre = i" "mi < i" "pre ! mi = mp" "mp \<noteq> NaN"
    "\<forall>j<i. fle mp (pre ! j)" "\<forall>j<mi. \<not> fle (pre ! j) mp"
  shows "argmin_from mp mi i xs < length (pre @ xs) \<and>
         (\<forall>j<length (pre @ xs). fle ((pre @ xs) ! argmin_from mp mi i xs) ((pre @ xs) ! j)) \<and>
         (\<forall>j<argmin_from mp mi i xs. \<not> fle ((pre @ xs) ! j) ((pre @ xs) ! argmin_from mp mi i xs))"
  using assms
proof (induction xs arbitrary: pre mp mi i)
  case Nil
  then show ?case by simp
next
  case (Cons x xs)
  have xn: "x \<noteq> NaN" and xsn: "NaN \<notin> set xs" using Cons.prems(1) by auto
  have app: "pre @ x # xs = (pre @ [x]) @ xs" by simp
  show ?case
  proof (cases "fle mp x")
    case True
    have "argmin_from mp mi (Suc i) xs < length ((pre @ [x]) @ xs) \<and>
         (\<forall>j<length ((pre @ [x]) @ xs). fle (((pre @ [x]) @ xs) ! argmin_from mp mi (Suc i) xs) (((pre @ [x]) @ xs) ! j)) \<and>
         (\<forall>j<argmin_from mp mi (Suc i) xs. \<not> fle (((pre @ [x]) @ xs) ! j) (((pre @ [x]) @ xs) ! argmin_from mp mi (Suc i) xs))"
    proof (rule Cons.IH [OF xsn])
      show "length (pre @ [x]) = Suc i" using Cons.prems(2) by simp
      show "mi < Suc i" using Cons.prems(3) by simp
      show "(pre @ [x]) ! mi = mp" using Cons.prems(2,3,4) by (simp add: nth_append)
      show "mp \<noteq> NaN" by fact
      show "\<forall>j<Suc i. fle mp ((pre @ [x]) ! j)"
        using Cons.prems(2,6) True by (auto simp: nth_append less_Suc_eq)
      show "\<forall>j<mi. \<not> fle ((pre @ [x]) ! j) mp"
        using Cons.prems(2,3,7) by (auto simp: nth_append)
    qed
    with True Cons.prems(5) show ?thesis unfolding app by simp
  next
    case False
    then have lt: "fle x mp" using fle_total [OF Cons.prems(5) xn] by blast
    have "argmin_from x i (Suc i) xs < length ((pre @ [x]) @ xs) \<and>
         (\<forall>j<length ((pre @ [x]) @ xs). fle (((pre @ [x]) @ xs) ! argmin_from x i (Suc i) xs) (((pre @ [x]) @ xs) ! j)) \<and>
         (\<forall>j<argmin_from x i (Suc i) xs. \<not> fle (((pre @ [x]) @ xs) ! j) (((pre @ [x]) @ xs) ! argmin_from x i (Suc i) xs))"
    proof (rule Cons.IH [OF xsn])
      show "length (pre @ [x]) = Suc i" using Cons.prems(2) by simp
      show "i < Suc i" by simp
      show "(pre @ [x]) ! i = x" using Cons.prems(2) by (simp add: nth_append)
      show "x \<noteq> NaN" by fact
      show "\<forall>j<Suc i. fle x ((pre @ [x]) ! j)"
        using Cons.prems(2,6) lt xn by (auto simp: nth_append less_Suc_eq fle_refl intro: fle_trans)
      show "\<forall>j<i. \<not> fle ((pre @ [x]) ! j) x"
      proof (intro allI impI notI)
        fix j assume j: "j < i" and c: "fle ((pre @ [x]) ! j) x"
        from Cons.prems(2,6) j have "fle mp ((pre @ [x]) ! j)" by (auto simp: nth_append)
        then have "fle mp x" using c by (rule fle_trans)
        with False show False by simp
      qed
    qed
    with False Cons.prems(5) show ?thesis unfolding app by simp
  qed
qed

lemma argmin_row_spec:
  assumes "r \<noteq> []" "NaN \<notin> set r"
  shows "argmin_row r < length r \<and>
         (\<forall>j<length r. fle (r ! argmin_row r) (r ! j)) \<and>
         (\<forall>j<argmin_row r. \<not> fle (r ! j) (r ! argmin_row r))"
proof -
  from assms(1) obtain x xs where r: "r = x # xs" by (cases r) auto
  have "argmin_from x 0 1 xs < length ([x] @ xs) \<and>
         (\<forall>j<length ([x] @ xs). fle (([x] @ xs) ! argmin_from x 0 1 xs) (([x] @ xs) ! j)) \<and>
         (\<forall>j<argmin_from x 0 1 xs. \<not> fle (([x] @ xs) ! j) (([x] @ xs) ! argmin_from x 0 1 xs))"
    using assms(2) r by (intro argmin_from_spec) (auto simp: fle_refl)
  then show ?thesis by (simp add: r argmin_row_def)
qed

subsection \<open>Answer choice\<close>

lemma choose_answers_rows:
  assumes "wf_array means" and "if signal f = 0 then 1 \<le> ncols means else 2 \<le> ncols means"
  shows "choose_answers f means =
     Inr (map (\<lambda>row. if signal f \<noteq> 0 \<and> fle (fdiv (sort_fl row ! 1) (sort_fl row ! 0)) (Fin (signal f))
                       then - 1 else int (argmin_row row)) (rows means))"
proof -
  have z: "map (\<lambda>(c, s). if fle s (Fin (signal f)) then - 1 else c)
            (zip (map (\<lambda>r. int (argmin_row r)) rs) (map (\<lambda>r. fdiv (r ! 1) (r ! 0)) (map sort_fl rs)))
        = map (\<lambda>row. if fle (fdiv (sort_fl row ! 1) (sort_fl row ! 0)) (Fin (signal f))
                       then - 1 else int (argmin_row row)) rs" for rs
    by (induction rs) simp_all
  show ?thesis
    unfolding choose_answers_def Let_def z using assms(2) by auto
qed

text \<open>
  Claim C1. For a rectangular matrix of means with at least one column (two when a signal
  threshold is set), \<open>choose_answers\<close> returns one choice per row. The choice is the
  index of the first minimum of the row (\<open>argmin_row\<close>, which on a row without \<open>NaN\<close>
  is a column whose mean is \<open>\<le>\<close> every mean of the row, no earlier column being as
  small). When the threshold is not zero the row is sorted ascending (a sorted permutation
  of the row), the ratio second-smallest / smallest is computed, and the choice is
  overwritten with \<open>-1\<close> when the ratio is \<open>\<le>\<close> the threshold; with threshold zero the
  choices are the plain argmin of each row.
\<close>

theorem choose_answers_spec:
  assumes "wf_array means" and "if signal f = 0 then 1 \<le> ncols means else 2 \<le> ncols means"
  shows "\<exists>choice. choose_answers f means = Inr choice \<and> length choice = length (rows means) \<and>
     (\<forall>i<length (rows means).
        (choice ! i =
           (if signal f \<noteq> 0 \<and>
               fle (fdiv (sort_fl (rows means ! i) ! 1) (sort_fl (rows means ! i) ! 0)) (Fin (signal f))
            then - 1 else int (argmin_row (rows means ! i)))) \<and>
        (NaN \<notin> set (rows means ! i) \<longrightarrow>
           argmin_row (rows means ! i) < ncols means \<and>
           (\<forall>j<ncols means. fle (rows means ! i ! argmin_row (rows means ! i)) (rows means ! i ! j)) \<and>
           (\<forall>j<argmin_row (rows means ! i).
               \<not> fle (rows means ! i ! j) (rows means ! i ! argmin_row (rows means ! i)))) \<and>
        mset (sort_fl (rows means ! i)) = mset (rows means ! i) \<and>
        sorted_wrt sort_le (sort_fl (rows means ! i)))"
proof -
  let ?pick = "\<lambda>row. if signal f \<noteq> 0 \<and> fle (fdiv (sort_fl row ! 1) (sort_fl row ! 0)) (Fin (signal f))
                       then - 1 else int (argmin_row row)"
  have eq: "choose_answers f means = Inr (map ?pick (rows means))"
    using assms by (rule choose_answers_rows)
  have len: "length (rows means ! i) = ncols means" if "i < length (rows means)" for i
    using assms(1) that by (simp add: wf_array_def list_all_length)
  have pos: "0 < ncols means" using assms(2) by (auto split: if_splits)
  have arg: "argmin_row (rows means ! i) < ncols means \<and>
           (\<forall>j<ncols means. fle (rows means ! i ! argmin_row (rows means ! i)) (rows means ! i ! j)) \<and>
           (\<forall>j<argmin_row (rows means ! i).
               \<not> fle (rows means ! i ! j) (rows means ! i ! argmin_row (rows means ! i)))"
    if "i < length (rows means)" "NaN \<notin> set (rows means ! i)" for i
  proof -
    have "rows means ! i \<noteq> []" using len [OF that(1)] pos by auto
    from argmin_row_spec [OF this that(2)] show ?thesis by (simp add: len [OF that(1)])
  qed
  show ?thesis
    by (rule exI [of _ "map ?pick (rows means)"])
       (simp add: eq arg mset_sort_fl sorted_sort_fl)
qed

theorem choose_answers_spec_witness:
  "wf_array \<lparr>rows = [[Fin 0, Fin 255], [Fin 255, Fin 255]], ncols = 2\<rparr> \<and>
   choose_answers (default_form\<lparr>signal := 11 / 10\<rparr>)
      \<lparr>rows = [[Fin 0, Fin 255], [Fin 255, Fin 255]], ncols = 2\<rparr> = Inr [0, - 1]"
proof -
  let ?m = "\<lparr>rows = [[Fin 0, Fin 255], [Fin 255, Fin 255]], ncols = 2\<rparr> :: fl array2"
  let ?f = "default_form\<lparr>signal := 11 / 10\<rparr>"
  have wf: "wf_array ?m" by (simp add: wf_array_def)
  have hyp: "if signal ?f = 0 then 1 \<le> ncols ?m else 2 \<le> ncols ?m"
    by (simp add: default_form_def)
  from choose_answers_spec [OF wf hyp]
  obtain choice where c: "choose_answers ?f ?m = Inr choice" "length choice = 2"
     and ev: "\<forall>i<length (rows ?m). choice ! i =
           (if signal ?f \<noteq> 0 \<and>
               fle (fdiv (sort_fl (rows ?m ! i) ! 1) (sort_fl (rows ?m ! i) ! 0)) (Fin (signal ?f))
            then - 1 else int (argmin_row (rows ?m ! i)))"
    by auto
  from ev have "choice ! 0 = 0" "choice ! 1 = - 1"
    by (simp_all add: default_form_def sort_le_def argmin_row_def)
  with c(2) have "choice = [0, - 1]"
    by (cases choice; cases "tl choice"; cases "tl (tl choice)") auto
  with c(1) wf show ?thesis by simp
qed

lemma sort_fl_0_least:
  assumes "x \<in> set r"
  shows "sort_le (sort_fl r ! 0) x"
proof -
  have "x \<in> set (sort_fl r)" using assms mset_sort_fl [of r] by (metis set_mset_mset)
  then obtain k where k: "k < length (sort_fl r)" "sort_fl r ! k = x"
    by (auto simp: in_set_conv_nth)
  show ?thesis
  proof (cases k)
    case 0
    with k show ?thesis using sort_le_total [of x x] by auto
  next
    case (Suc m)
    with k sorted_sort_fl [of r] show ?thesis
      by (auto simp: sorted_wrt_iff_nth_less)
  qed
qed

lemma argmin_row_is_sorted_head:
  assumes "r \<noteq> []" "NaN \<notin> set r"
  shows "r ! argmin_row r = sort_fl r ! 0"
proof -
  from argmin_row_spec [OF assms]
  have a: "argmin_row r < length r" and b: "\<forall>j<length r. fle (r ! argmin_row r) (r ! j)"
    by auto
  have "0 < length (sort_fl r)" using assms(1) by (simp add: length_sort_fl)
  then have "sort_fl r ! 0 \<in> set (sort_fl r)" by (rule nth_mem)
  then have hd_in: "sort_fl r ! 0 \<in> set r" using mset_sort_fl [of r] by (metis set_mset_mset)
  then obtain j where "j < length r" "r ! j = sort_fl r ! 0" by (auto simp: in_set_conv_nth)
  with b have le1: "fle (r ! argmin_row r) (sort_fl r ! 0)" by auto
  have mem: "r ! argmin_row r \<in> set r" using a by simp
  then have nn: "r ! argmin_row r \<noteq> NaN" using assms(2) by auto
  from sort_fl_0_least [OF mem] nn have "fle (sort_fl r ! 0) (r ! argmin_row r)"
    by (simp add: sort_le_def)
  with le1 show ?thesis by (rule fle_antisym)
qed

text \<open>
  Claim C2, as the code has it. The ratio is second-smallest / smallest, so for a row
  whose two darkest means are 10 and 12 it is 12 / 10 = 1.2, not 0.833: the thresholds
  0.9 and 0.5 both keep the darkest-index choice (the column with mean 10), and the
  row's choice is overwritten with \<open>-1\<close> exactly when the non-zero threshold is at
  least 1.2.
\<close>

theorem choose_answers_10_12:
  assumes "length row = n" "2 \<le> n" "sort_fl row ! 0 = Fin 10" "sort_fl row ! 1 = Fin 12"
    and "signal f \<noteq> 0"
  shows "choose_answers f \<lparr>rows = [row], ncols = n\<rparr>
           = Inr [if 6 / 5 \<le> signal f then - 1 else int (argmin_row row)] \<and>
         (signal f = 9 / 10 \<or> signal f = 1 / 2 \<longrightarrow>
            choose_answers f \<lparr>rows = [row], ncols = n\<rparr> = Inr [int (argmin_row row)]) \<and>
         (NaN \<notin> set row \<longrightarrow> row ! argmin_row row = Fin 10)"
proof -
  let ?m = "\<lparr>rows = [row], ncols = n\<rparr> :: fl array2"
  have wf: "wf_array ?m" using assms(1) by (simp add: wf_array_def)
  have hyp: "if signal f = 0 then 1 \<le> ncols ?m else 2 \<le> ncols ?m"
    using assms(2,5) by simp
  have eq: "choose_answers f ?m = Inr [if 6 / 5 \<le> signal f then - 1 else int (argmin_row row)]"
    unfolding choose_answers_rows [OF wf hyp] using assms(3,4,5) by simp
  have "row \<noteq> []" using assms(1,2) by auto
  then have "NaN \<notin> set row \<longrightarrow> row ! argmin_row row = Fin 10"
    using argmin_row_is_sorted_head [of row] assms(3) by simp
  with eq show ?thesis by auto
qed

theorem choose_answers_10_12_witness:
  "choose_answers (default_form\<lparr>signal := 9 / 10\<rparr>)
      \<lparr>rows = [[Fin 12, Fin 10, Fin 255]], ncols = 3\<rparr> = Inr [1] \<and>
   [Fin 12, Fin 10, Fin 255] ! argmin_row [Fin 12, Fin 10, Fin 255] = Fin 10"
proof -
  let ?row = "[Fin 12, Fin 10, Fin 255]"
  let ?f = "default_form\<lparr>signal := 9 / 10\<rparr>"
  have h: "length ?row = 3" "2 \<le> (3::nat)" "sort_fl ?row ! 0 = Fin 10" "sort_fl ?row ! 1 = Fin 12"
    "signal ?f \<noteq> 0"
    by (simp_all add: sort_le_def default_form_def)
  have a: "argmin_row ?row = 1" by (simp add: argmin_row_def)
  from choose_answers_10_12 [OF h] show ?thesis
    by (simp add: a default_form_def)
qed

text \<open>
  Claim C2 as stated fails: with means 10 and 12 and threshold 0.9 the choice is the
  darkest column 0, not \<open>-1\<close>.
\<close>

theorem choose_answers_10_12_counterexample:
  "choose_answers (default_form\<lparr>signal := 9 / 10\<rparr>) \<lparr>rows = [[Fin 10, Fin 12]], ncols = 2\<rparr>
     = Inr [0] \<and>
   choose_answers (default_form\<lparr>signal := 9 / 10\<rparr>) \<lparr>rows = [[Fin 10, Fin 12]], ncols = 2\<rparr>
     \<noteq> Inr [- 1]"
  by (simp add: choose_answers_def default_form_def argmin_row_def sort_le_def)

subsection \<open>Size check\<close>

lemma fle_pctdiff:
  "0 < e \<Longrightarrow> fle (pctdiff d e) (Fin t) = (of_int \<bar>d - e\<bar> / of_int e \<le> t)"
  by (simp add: pctdiff_def)

lemma check_size_iff:
  assumes "expected_size f = (e0, e1)" "0 < e0" "0 < e1"
    and "size_tolerance f = (t0, t1)" "shape img = (h, w)"
  shows "check_size f img = Inr () \<longleftrightarrow>
           of_int \<bar>int h - e0\<bar> / of_int e0 \<le> t0 \<and> of_int \<bar>int w - e1\<bar> / of_int e1 \<le> t1"
    and "check_size f img = Inl StandardError \<longleftrightarrow>
           t0 < of_int \<bar>int h - e0\<bar> / of_int e0 \<or> t1 < of_int \<bar>int w - e1\<bar> / of_int e1"
  using assms by (auto simp: check_size_def fle_pctdiff)

text \<open>
  Claim C7. With positive expected sizes, \<open>check_size\<close> fails (with the source's
  StandardError) if and only if the relative deviation \<open>|dim - expected| / expected\<close> of
  some axis exceeds that axis' tolerance, and returns otherwise. A deviation of exactly
  the tolerance passes; a dimension one pixel further from the expected size fails.
  The function returns no image and reads only the shape: nothing is mutated.
\<close>

theorem check_size_tolerance:
  assumes "expected_size f = (e0, e1)" "0 < e0" "0 < e1"
    and "size_tolerance f = (t0, t1)" "shape img = (h, w)"
  shows "(check_size f img = Inl StandardError \<longleftrightarrow>
            t0 < of_int \<bar>int h - e0\<bar> / of_int e0 \<or> t1 < of_int \<bar>int w - e1\<bar> / of_int e1) \<and>
         (check_size f img = Inr () \<longleftrightarrow>
            of_int \<bar>int h - e0\<bar> / of_int e0 \<le> t0 \<and> of_int \<bar>int w - e1\<bar> / of_int e1 \<le> t1) \<and>
         (of_int \<bar>int h - e0\<bar> / of_int e0 = t0 \<and> of_int \<bar>int w - e1\<bar> / of_int e1 = t1
            \<longrightarrow> check_size f img = Inr ()) \<and>
         (\<forall>img' h' w'. shape img' = (h', w') \<and>
            (of_int \<bar>int h - e0\<bar> / of_int e0 = t0 \<and> \<bar>int h' - e0\<bar> = \<bar>int h - e0\<bar> + 1 \<or>
             of_int \<bar>int w - e1\<bar> / of_int e1 = t1 \<and> \<bar>int w' - e1\<bar> = \<bar>int w - e1\<bar> + 1)
            \<longrightarrow> check_size f (img' :: 'b array2) = Inl StandardError)"
proof -
  have beyond: "t < of_int (a + 1) / of_int e" if "of_int a / of_int e = t" "0 < e"
    for a e :: int and t :: rat
  proof -
    have "of_int a / (of_int e :: rat) < of_int (a + 1) / of_int e"
      using that(2) by (simp add: divide_strict_right_mono)
    with that(1) show ?thesis by simp
  qed
  have far: "check_size f img' = Inl StandardError"
    if "shape img' = (h', w')"
       "of_int \<bar>int h - e0\<bar> / of_int e0 = t0 \<and> \<bar>int h' - e0\<bar> = \<bar>int h - e0\<bar> + 1 \<or>
        of_int \<bar>int w - e1\<bar> / of_int e1 = t1 \<and> \<bar>int w' - e1\<bar> = \<bar>int w - e1\<bar> + 1"
    for img' :: "'b array2" and h' w'
  proof -
    from that(2) have "t0 < of_int \<bar>int h' - e0\<bar> / of_int e0 \<or> t1 < of_int \<bar>int w' - e1\<bar> / of_int e1"
    proof
      assume a: "of_int \<bar>int h - e0\<bar> / of_int e0 = t0 \<and> \<bar>int h' - e0\<bar> = \<bar>int h - e0\<bar> + 1"
      then have b: "\<bar>int h' - e0\<bar> = \<bar>int h - e0\<bar> + 1" by simp
      have "t0 < of_int \<bar>int h' - e0\<bar> / of_int e0"
        unfolding b using a assms(2) by (intro beyond) simp_all
      then show ?thesis ..
    next
      assume a: "of_int \<bar>int w - e1\<bar> / of_int e1 = t1 \<and> \<bar>int w' - e1\<bar> = \<bar>int w - e1\<bar> + 1"
      then have b: "\<bar>int w' - e1\<bar> = \<bar>int w - e1\<bar> + 1" by simp
      have "t1 < of_int \<bar>int w' - e1\<bar> / of_int e1"
        unfolding b using a assms(3) by (intro beyond) simp_all
      then show ?thesis ..
    qed
    then show ?thesis
      using check_size_iff(2) [OF assms(1,2,3,4) that(1)] by simp
  qed
  show ?thesis
    using check_size_iff [OF assms] far by auto
qed

theorem check_size_tolerance_witness:
  "check_size (default_form\<lparr>expected_size := (1000, 500), size_tolerance := (1 / 10, 1 / 10)\<rparr>)
      \<lparr>rows = replicate 1100 (replicate 450 (0::int)), ncols = 450\<rparr> = Inr () \<and>
   check_size (default_form\<lparr>expected_size := (1000, 500), size_tolerance := (1 / 10, 1 / 10)\<rparr>)
      \<lparr>rows = replicate 1101 (replicate 450 (0::int)), ncols = 450\<rparr> = Inl StandardError"
proof -
  let ?f = "default_form\<lparr>expected_size := (1000, 500), size_tolerance := (1 / 10, 1 / 10)\<rparr>"
  let ?img = "\<lparr>rows = replicate 1100 (replicate 450 (0::int)), ncols = 450\<rparr>"
  let ?img' = "\<lparr>rows = replicate 1101 (replicate 450 (0::int)), ncols = 450\<rparr>"
  have h: "expected_size ?f = (1000, 500)" "(0::int) < 1000" "(0::int) < 500"
    "size_tolerance ?f = (1 / 10, 1 / 10)" "shape ?img = (1100, 450)"
    by (simp_all add: default_form_def shape_def)
  have s': "shape ?img' = (1101, 450)" by (simp add: shape_def)
  from check_size_tolerance [OF h, where ?'b = int] s' show ?thesis
    by simp
qed

subsection \<open>Reference boxes\<close>

lemma within_radius_code: "within_radius r i j \<longleftrightarrow> 0 \<le> r \<and> i\<^sup>2 + j\<^sup>2 \<le> r\<^sup>2"
proof -
  have nn: "0 \<le> i\<^sup>2 + j\<^sup>2" by simp
  show ?thesis
  proof (cases "0 \<le> r")
    case True
    then have "sqrt (of_int (i\<^sup>2 + j\<^sup>2)) \<le> of_int r \<longleftrightarrow> real_of_int (i\<^sup>2 + j\<^sup>2) \<le> (of_int r)\<^sup>2"
      by (metis of_int_0_le_iff real_sqrt_le_iff real_sqrt_abs abs_of_nonneg)
    also have "\<dots> \<longleftrightarrow> i\<^sup>2 + j\<^sup>2 \<le> r\<^sup>2"
      by (metis of_int_le_iff of_int_power)
    finally show ?thesis using True by (simp add: within_radius_def)
  next
    case False
    have "0 \<le> sqrt (real_of_int (i\<^sup>2 + j\<^sup>2))" using nn by simp
    moreover have "real_of_int r < 0" using False by simp
    ultimately have "\<not> sqrt (real_of_int (i\<^sup>2 + j\<^sup>2)) \<le> real_of_int r" by linarith
    with False show ?thesis unfolding within_radius_def by blast
  qed
qed



lemma set_box_coords:
  "set (box_coords r) = {(i, j). - r \<le> i \<and> i < r \<and> - r \<le> j \<and> j < r \<and> i\<^sup>2 + j\<^sup>2 \<le> r\<^sup>2}"
  by (force simp: box_coords_def within_radius_code)

lemma sorted_grid:
  "sorted_wrt (<) js \<Longrightarrow> sorted_wrt (<) is \<Longrightarrow>
     sorted_wrt col_then_row (concat (map (\<lambda>j. map (\<lambda>i. (i, j)) is) js))"
proof (induction js)
  case Nil
  then show ?case by simp
next
  case (Cons x js)
  have row: "sorted_wrt col_then_row (map (\<lambda>i. (i, x)) is)"
    using Cons.prems(2) by (simp add: sorted_wrt_map col_then_row_def)
  have rest: "sorted_wrt col_then_row (concat (map (\<lambda>j. map (\<lambda>i. (i, j)) is) js))"
    using Cons by simp
  have cross: "col_then_row p q" if "p \<in> set (map (\<lambda>i. (i, x)) is)"
    "q \<in> set (concat (map (\<lambda>j. map (\<lambda>i. (i, j)) is) js))" for p q
    using that Cons.prems(1) by (auto simp: col_then_row_def)
  show ?case
    using row rest cross by (simp add: sorted_wrt_append del: set_map set_concat)
qed

lemma sorted_box_coords: "sorted_wrt col_then_row (box_coords r)"
  unfolding box_coords_def by (intro sorted_wrt_filter sorted_grid) simp_all

lemma mean_cases: "mean a = NaN \<or> (\<exists>q. mean a = Fin q)"
  by (simp add: mean_def)

lemma box_fit_cases:
  "x \<in> set (box_fit img r xmin xmax ymin ymax) \<Longrightarrow> x = NaN \<or> (\<exists>q. x = Fin q)"
  using mean_cases by (auto simp: box_fit_def)

lemma length_box_fit: "length (box_fit img r xmin xmax ymin ymax) = length (box_coords r)"
  by (simp add: box_fit_def)

lemma foldl_fmin_mem: "foldl fmin a ys \<in> insert a (set ys)"
  by (induction ys arbitrary: a) (auto simp: fmin_def)

lemma nanmin_mem: "xs \<noteq> [] \<Longrightarrow> nanmin xs \<in> set xs"
  using foldl_fmin_mem [of "hd xs" "tl xs"] by (cases xs) (auto simp: nanmin_def)

lemma nanargmin_spec:
  assumes fin: "\<forall>x\<in>set xs. x = NaN \<or> (\<exists>q. x = Fin q)"
    and some: "Fin q \<in> set xs"
  shows "nanargmin xs < length xs \<and> xs ! nanargmin xs \<noteq> NaN \<and>
         (\<forall>j<length xs. xs ! j = NaN \<or> fle (xs ! nanargmin xs) (xs ! j)) \<and>
         (\<forall>j<nanargmin xs. \<not> fle (xs ! j) (xs ! nanargmin xs))"
proof -
  let ?g = "\<lambda>x. if x = NaN then PInf else x"
  let ?ys = "map ?g xs"
  let ?k = "argmin_row ?ys"
  have ne: "?ys \<noteq> []" using some by auto
  have nn: "NaN \<notin> set ?ys" by auto
  from argmin_row_spec [OF ne nn]
  have k: "?k < length xs" and le: "\<forall>j<length xs. fle (?ys ! ?k) (?ys ! j)"
    and first: "\<forall>j<?k. \<not> fle (?ys ! j) (?ys ! ?k)"
    by auto
  from some obtain j0 where j0: "j0 < length xs" "xs ! j0 = Fin q"
    by (auto simp: in_set_conv_nth)
  with le have "fle (?ys ! ?k) (Fin q)" by fastforce
  then have ypinf: "?ys ! ?k \<noteq> PInf" by auto
  have xk: "xs ! ?k \<noteq> NaN" using ypinf k by auto
  then have yk: "?ys ! ?k = xs ! ?k" using k by simp
  have a: "xs ! j = NaN \<or> fle (xs ! ?k) (xs ! j)" if "j < length xs" for j
    using le that yk by (cases "xs ! j = NaN") (auto dest!: spec [of _ j])
  have b: "\<not> fle (xs ! j) (xs ! ?k)" if "j < ?k" for j
  proof (cases "xs ! j = NaN")
    case True
    then show ?thesis by simp
  next
    case False
    with first that k yk show ?thesis by (auto dest!: spec [of _ j])
  qed
  show ?thesis unfolding nanargmin_def using k xk a b by blast
qed

lemma astype_i_eq:
  "astype_i q = z \<longleftrightarrow>
     (if 0 \<le> q then of_int z \<le> q \<and> q < of_int z + 1 else of_int z - 1 < q \<and> q \<le> of_int z)"
  by (simp add: astype_i_def floor_eq_iff ceiling_eq_iff)

lemma box_coords_1: "box_coords 1 = [(0, - 1), (- 1, 0), (0, 0)]"
  by (simp add: box_coords_def within_radius_code upto.simps)

lemmas box_eval =
  center_on_box_def box_fit_def box_coords_1 slice2_def pyslice_def slice_bound_def
  mean_def nanmin_def fmin_def nanargmin_def argmin_row_def na_val_def Let_def

text \<open>
  Claim C3 fails on the code: \<open>arange(-radius, radius)\<close> stops at \<open>radius - 1\<close>, so
  the offsets \<open>(radius, 0)\<close> and \<open>(0, radius)\<close>, at distance exactly \<open>radius\<close>, are never
  tried. With radius 1 the candidates are \<open>(0,-1), (-1,0), (0,0)\<close>; on an image whose
  black box lies one row below the reference rectangle the translated rectangle at
  offset \<open>(1, 0)\<close> has mean 0, yet the search reports no match.
\<close>

theorem center_on_box_misses_radius:
  "box_coords 1 = [(0, - 1), (- 1, 0), (0, 0)] \<and>
   within_radius 1 1 0 \<and> (1, 0) \<notin> set (box_coords 1) \<and>
   within_radius 1 0 1 \<and> (0, 1) \<notin> set (box_coords 1) \<and>
   mean (slice2 (1 + 1) (3 + 1) (1 + 0) (3 + 0)
          \<lparr>rows = [[255, 255, 255, 255], [255, 255, 255, 255], [255, 0, 0, 255],
                   [255, 0, 0, 255], [255, 255, 255, 255]], ncols = 4\<rparr>) = Fin 0 \<and>
   center_on_box
      \<lparr>rows = [[255, 255, 255, 255], [255, 255, 255, 255], [255, 0, 0, 255],
               [255, 0, 0, 255], [255, 255, 255, 255]], ncols = 4\<rparr>
      1 0 1 3 1 3 = Inr (na_val, na_val)"
proof -
  have "within_radius 1 1 0" "within_radius 1 0 1"
    by (simp_all add: within_radius_code)
  moreover have "mean (slice2 (1 + 1) (3 + 1) (1 + 0) (3 + 0)
          \<lparr>rows = [[255, 255, 255, 255], [255, 255, 255, 255], [255, 0, 0, 255],
                   [255, 0, 0, 255], [255, 255, 255, 255]], ncols = 4\<rparr>) = Fin 0"
    by (simp add: slice2_def pyslice_def slice_bound_def mean_def)
  moreover have "center_on_box
      \<lparr>rows = [[255, 255, 255, 255], [255, 255, 255, 255], [255, 0, 0, 255],
               [255, 0, 0, 255], [255, 255, 255, 255]], ncols = 4\<rparr>
      1 0 1 3 1 3 = Inr (na_val, na_val)"
    by (simp add: box_eval)
  ultimately show ?thesis by (simp add: box_coords_1)
qed

lemma fmin_le_left: "a \<noteq> NaN \<Longrightarrow> fle (fmin a b) a"
  by (cases a; cases b) (auto simp: fmin_def)

lemma fmin_le_right: "b \<noteq> NaN \<Longrightarrow> fle (fmin a b) b"
  by (cases a; cases b) (auto simp: fmin_def)

lemma fmin_not_NaN: "a \<noteq> NaN \<or> b \<noteq> NaN \<Longrightarrow> fmin a b \<noteq> NaN"
  by (auto simp: fmin_def)

lemma foldl_fmin_le:
  "x \<in> insert a (set ys) \<Longrightarrow> x \<noteq> NaN \<Longrightarrow> fle (foldl fmin a ys) x"
proof (induction ys arbitrary: a x)
  case Nil
  then show ?case by (simp add: fle_refl)
next
  case (Cons y ys)
  show ?case
  proof (cases "x \<in> set ys")
    case True
    then have "x \<in> insert (fmin a y) (set ys)" by simp
    then have "fle (foldl fmin (fmin a y) ys) x" using Cons.prems(2) by (rule Cons.IH)
    then show ?thesis by simp
  next
    case False
    with Cons.prems have xy: "x = a \<or> x = y" by auto
    then have le: "fle (fmin a y) x"
      using Cons.prems(2) fmin_le_left fmin_le_right by blast
    then have nn: "fmin a y \<noteq> NaN" using fle_not_NaN by blast
    have "fle (foldl fmin (fmin a y) ys) (fmin a y)"
      by (rule Cons.IH) (simp_all add: nn)
    then show ?thesis using le by (simp add: fle_trans)
  qed
qed

lemma nanmin_le: "x \<in> set xs \<Longrightarrow> x \<noteq> NaN \<Longrightarrow> fle (nanmin xs) x"
  using foldl_fmin_le [of x "hd xs" "tl xs"] by (cases xs) (auto simp: nanmin_def)

lemma nanmin_le_iff:
  assumes "xs \<noteq> []"
  shows "fle (nanmin xs) (Fin m) \<longleftrightarrow> (\<exists>j<length xs. fle (xs ! j) (Fin m))"
proof
  assume l: "fle (nanmin xs) (Fin m)"
  from nanmin_mem [OF assms] obtain j where "j < length xs" "xs ! j = nanmin xs"
    by (auto simp: in_set_conv_nth)
  with l show "\<exists>j<length xs. fle (xs ! j) (Fin m)" by auto
next
  assume "\<exists>j<length xs. fle (xs ! j) (Fin m)"
  then obtain j where j: "j < length xs" "fle (xs ! j) (Fin m)" by blast
  then have "xs ! j \<noteq> NaN" using fle_not_NaN by blast
  with j(1) have "fle (nanmin xs) (xs ! j)" by (intro nanmin_le) simp_all
  then show "fle (nanmin xs) (Fin m)" using j(2) by (rule fle_trans)
qed

text \<open>
  Claim C4, as the code has it. The candidates are enumerated by ascending column offset
  and then ascending row offset (not by ascending distance). If some candidate's
  translated rectangle has a mean \<open>\<le> min_ref\<close>, the search returns the first candidate
  of that enumeration attaining the minimum mean: its mean is \<open>\<le> min_ref\<close>, no
  candidate has a smaller mean, and every earlier candidate has a strictly larger mean
  or an empty rectangle. Otherwise it returns the sentinel. The result is a function of
  the arguments, hence deterministic.
\<close>

theorem center_on_box_first_min:
  assumes "box_coords r \<noteq> []"
  shows "(if \<exists>j<length (box_coords r). fle (box_fit img r xmin xmax ymin ymax ! j) (Fin m)
          then \<exists>k<length (box_coords r).
             center_on_box img r m xmin xmax ymin ymax = Inr (box_coords r ! k) \<and>
             fle (box_fit img r xmin xmax ymin ymax ! k) (Fin m) \<and>
             (\<forall>j<length (box_coords r).
                 box_fit img r xmin xmax ymin ymax ! j = NaN \<or>
                 fle (box_fit img r xmin xmax ymin ymax ! k)
                     (box_fit img r xmin xmax ymin ymax ! j)) \<and>
             (\<forall>j<k. \<not> fle (box_fit img r xmin xmax ymin ymax ! j)
                           (box_fit img r xmin xmax ymin ymax ! k))
          else center_on_box img r m xmin xmax ymin ymax = Inr (na_val, na_val)) \<and>
         sorted_wrt col_then_row (box_coords r)"
proof -
  let ?fit = "box_fit img r xmin xmax ymin ymax"
  have len: "length ?fit = length (box_coords r)" by (rule length_box_fit)
  have ne: "?fit \<noteq> []" using assms len by auto
  have iff: "fle (nanmin ?fit) (Fin m) \<longleftrightarrow> (\<exists>j<length (box_coords r). fle (?fit ! j) (Fin m))"
    using nanmin_le_iff [OF ne, of m] len by simp
  show ?thesis
  proof (cases "\<exists>j<length (box_coords r). fle (?fit ! j) (Fin m)")
    case False
    then have "\<not> fle (nanmin ?fit) (Fin m)" using iff by blast
    then have "center_on_box img r m xmin xmax ymin ymax = Inr (na_val, na_val)"
      using ne by (simp add: center_on_box_def Let_def)
    then show ?thesis
      by (subst if_not_P [OF False]) (simp add: sorted_box_coords)
  next
    case True
    then have le: "fle (nanmin ?fit) (Fin m)" using iff by blast
    then have res: "center_on_box img r m xmin xmax ymin ymax = Inr (box_coords r ! nanargmin ?fit)"
      using ne by (simp add: center_on_box_def Let_def)
    have mem: "nanmin ?fit \<in> set ?fit" using ne by (rule nanmin_mem)
    from le have "nanmin ?fit \<noteq> NaN" by auto
    with mem box_fit_cases obtain q where q: "nanmin ?fit = Fin q" by blast
    have fin: "\<forall>x\<in>set ?fit. x = NaN \<or> (\<exists>q. x = Fin q)" using box_fit_cases by blast
    from nanargmin_spec [OF fin] mem q
    have k: "nanargmin ?fit < length ?fit"
      and a: "\<forall>j<length ?fit. ?fit ! j = NaN \<or> fle (?fit ! nanargmin ?fit) (?fit ! j)"
      and b: "\<forall>j<nanargmin ?fit. \<not> fle (?fit ! j) (?fit ! nanargmin ?fit)"
      by auto
    from mem obtain j0 where "j0 < length ?fit" "?fit ! j0 = nanmin ?fit"
      by (auto simp: in_set_conv_nth)
    with a q have "fle (?fit ! nanargmin ?fit) (nanmin ?fit)" by fastforce
    then have c: "fle (?fit ! nanargmin ?fit) (Fin m)" using le by (rule fle_trans)
    have "\<exists>k<length (box_coords r).
             center_on_box img r m xmin xmax ymin ymax = Inr (box_coords r ! k) \<and>
             fle (?fit ! k) (Fin m) \<and>
             (\<forall>j<length (box_coords r). ?fit ! j = NaN \<or> fle (?fit ! k) (?fit ! j)) \<and>
             (\<forall>j<k. \<not> fle (?fit ! j) (?fit ! k))"
      using k a b c res by (intro exI [of _ "nanargmin ?fit"]) (simp add: len)
    then show ?thesis
      by (subst if_P [OF True]) (simp add: sorted_box_coords)
  qed
qed

theorem center_on_box_first_min_witness:
  "box_coords 1 \<noteq> [] \<and>
   center_on_box \<lparr>rows = [[0, 0, 0, 0], [0, 0, 0, 0], [0, 0, 0, 0], [0, 0, 0, 0]], ncols = 4\<rparr>
      1 0 1 3 1 3 = Inr (0, - 1) \<and>
   center_on_box \<lparr>rows = [[9, 9, 9, 9], [9, 9, 9, 9], [9, 9, 9, 9], [9, 9, 9, 9]], ncols = 4\<rparr>
      1 0 1 3 1 3 = Inr (na_val, na_val)"
proof -
  let ?img = "\<lparr>rows = [[0, 0, 0, 0], [0, 0, 0, 0], [0, 0, 0, 0], [0, 0, 0, 0]], ncols = 4\<rparr> :: int array2"
  let ?img9 = "\<lparr>rows = [[9, 9, 9, 9], [9, 9, 9, 9], [9, 9, 9, 9], [9, 9, 9, 9]], ncols = 4\<rparr> :: int array2"
  have h: "box_coords 1 \<noteq> []" by (simp add: box_coords_1)
  have fit: "box_fit ?img 1 1 3 1 3 = [Fin 0, Fin 0, Fin 0]"
    by (simp add: box_fit_def box_coords_1 slice2_def pyslice_def slice_bound_def mean_def)
  have fit9: "box_fit ?img9 1 1 3 1 3 = [Fin 9, Fin 9, Fin 9]"
    by (simp add: box_fit_def box_coords_1 slice2_def pyslice_def slice_bound_def mean_def)
  have some: "\<exists>j<length (box_coords 1). fle (box_fit ?img 1 1 3 1 3 ! j) (Fin 0)"
    by (rule exI [of _ 0]) (simp add: fit box_coords_1)
  have none: "\<not> (\<exists>j<length (box_coords 1). fle (box_fit ?img9 1 1 3 1 3 ! j) (Fin 0))"
    by (simp add: fit9 box_coords_1 Ex_less_Suc)
  from center_on_box_first_min [OF h, of ?img 1 3 1 3 0] some
  obtain k where k: "k < length (box_coords 1)"
    and res: "center_on_box ?img 1 0 1 3 1 3 = Inr (box_coords 1 ! k)"
    and first: "\<forall>j<k. \<not> fle (box_fit ?img 1 1 3 1 3 ! j) (box_fit ?img 1 1 3 1 3 ! k)"
    by (simp only: if_True) blast
  have "k = 0"
  proof (rule ccontr)
    assume "k \<noteq> 0"
    then have "0 < k" by simp
    with first have "\<not> fle (box_fit ?img 1 1 3 1 3 ! 0) (box_fit ?img 1 1 3 1 3 ! k)" by blast
    moreover have "k = 1 \<or> k = 2" using k \<open>0 < k\<close> by (simp add: box_coords_1) arith
    ultimately show False by (auto simp: fit)
  qed
  with res have r1: "center_on_box ?img 1 0 1 3 1 3 = Inr (0, - 1)" by (simp add: box_coords_1)
  from center_on_box_first_min [OF h, of ?img9 1 3 1 3 0] none
  have r2: "center_on_box ?img9 1 0 1 3 1 3 = Inr (na_val, na_val)" by (simp only: if_False)
  from h r1 r2 show ?thesis by blast
qed

text \<open>
  Claim C4 as stated fails: on an all-black image the three candidates of radius 1 have
  the same mean 0; the offset \<open>(0, 0)\<close> is the nearest to the origin, and the search
  returns \<open>(0, -1)\<close>, at distance 1.
\<close>

theorem center_on_box_tie_counterexample:
  "center_on_box \<lparr>rows = [[0, 0, 0, 0], [0, 0, 0, 0], [0, 0, 0, 0], [0, 0, 0, 0]], ncols = 4\<rparr>
      1 0 1 3 1 3 = Inr (0, - 1) \<and>
   box_fit \<lparr>rows = [[0, 0, 0, 0], [0, 0, 0, 0], [0, 0, 0, 0], [0, 0, 0, 0]], ncols = 4\<rparr>
      1 1 3 1 3 = [Fin 0, Fin 0, Fin 0] \<and>
   (0, 0) \<in> set (box_coords 1) \<and>
   (0::int)\<^sup>2 + 0\<^sup>2 < 0\<^sup>2 + (- 1)\<^sup>2"
  by (simp add: box_eval)

text \<open>
  Claim C5 fails on the code. The mask \<open>fit == -9999\<close> is computed on a Python list and
  is \<open>False\<close>, so the sentinel of a box without match is averaged with the offsets of
  the other boxes, and no StandardError is raised when every box is a sentinel. Here the
  first box matches at \<open>(0, -1)\<close> and the second has no match: the global offset is
  \<open>(-4999, -5000)\<close> instead of \<open>(0, -1)\<close>; with two unmatched boxes the method returns
  \<open>(-9999, -9999)\<close> instead of failing.
\<close>

theorem fit_reference_averages_sentinel:
  "fit_reference
     (default_form\<lparr>refzone := [(1, 3, 1, 3), (1, 3, 5, 7)], contrast := 128, radius := 1,
                    min_ref := 10\<rparr>)
     \<lparr>rows = [[10, 10, 10, 10, 200, 200, 200, 200], [10, 10, 10, 10, 200, 200, 200, 200],
              [10, 10, 10, 10, 200, 200, 200, 200], [10, 10, 10, 10, 200, 200, 200, 200]],
      ncols = 8\<rparr>
     = Inr ((- 4999, - 5000), [(0, - 1), (- 9999, - 9999)]) \<and>
   fit_reference
     (default_form\<lparr>refzone := [(1, 3, 5, 7), (1, 3, 5, 7)], contrast := 128, radius := 1,
                    min_ref := 10\<rparr>)
     \<lparr>rows = [[10, 10, 10, 10, 200, 200, 200, 200], [10, 10, 10, 10, 200, 200, 200, 200],
              [10, 10, 10, 10, 200, 200, 200, 200], [10, 10, 10, 10, 200, 200, 200, 200]],
      ncols = 8\<rparr>
     = Inr ((- 9999, - 9999), [(- 9999, - 9999), (- 9999, - 9999)])"
proof -
  let ?img = "\<lparr>rows = [[10, 10, 10, 10, 200, 200, 200, 200], [10, 10, 10, 10, 200, 200, 200, 200],
              [10, 10, 10, 10, 200, 200, 200, 200], [10, 10, 10, 10, 200, 200, 200, 200]],
      ncols = 8\<rparr> :: int array2"
  let ?bw = "\<lparr>rows = [[0, 0, 0, 0, 255, 255, 255, 255], [0, 0, 0, 0, 255, 255, 255, 255],
              [0, 0, 0, 0, 255, 255, 255, 255], [0, 0, 0, 0, 255, 255, 255, 255]],
      ncols = 8\<rparr> :: int array2"
  have bw: "binarize 128 ?img = ?bw" by (simp add: binarize_def)
  have b1: "center_on_box ?bw 1 10 1 3 1 3 = Inr (0, - 1)" by (simp add: box_eval)
  have b2: "center_on_box ?bw 1 10 1 3 5 7 = Inr (- 9999, - 9999)" by (simp add: box_eval)
  show ?thesis
    by (simp add: fit_reference_def default_form_def list_eq_int_def astype_i_eq bw b1 b2)
qed

subsection \<open>Margin trimming\<close>

lemma trim_edge_shape:
  "trim_edge t img = Inr img' \<Longrightarrow>
     snd (shape img') = fst (shape img) \<and> fst (shape img') \<le> snd (shape img) \<and> 0 < snd (shape img)"
  by (auto simp: trim_edge_def rot90_def shape_def Let_def split: if_splits)

lemma trim_pass_shape:
  assumes "trim_pass t img = Inr img'"
  shows "fst (shape img') \<le> fst (shape img) \<and> snd (shape img') \<le> snd (shape img) \<and>
         0 < fst (shape img) \<and> 0 < snd (shape img)"
proof -
  from assms obtain a b c where
    s: "trim_edge t img = Inr a" "trim_edge t a = Inr b" "trim_edge t b = Inr c"
       "trim_edge t c = Inr img'"
    by (auto simp: trim_pass_def bind_err_def split: sum.splits)
  from s(1) [THEN trim_edge_shape] s(2) [THEN trim_edge_shape] s(3) [THEN trim_edge_shape]
       s(4) [THEN trim_edge_shape]
  show ?thesis by linarith
qed

termination trim_loop
proof (relation "measure (\<lambda>(t, oldsize, img).
          2 * (fst (shape img) + snd (shape img)) + (if oldsize \<noteq> shape img then 1 else 0))")
  show "wf (measure (\<lambda>(t, oldsize, img).
          2 * (fst (shape img) + snd (shape img)) + (if oldsize \<noteq> shape img then 1 else 0)))"
    by simp
next
  fix t :: rat and oldsize :: "nat \<times> nat" and img img' :: "int array2"
  assume ne: "oldsize \<noteq> shape img" and p: "trim_pass t img = Inr img'"
  from trim_pass_shape [OF p]
  have le: "fst (shape img') \<le> fst (shape img)" "snd (shape img') \<le> snd (shape img)"
    by auto
  show "((t, shape img, img'), (t, oldsize, img)) \<in> measure (\<lambda>(t, oldsize, img).
          2 * (fst (shape img) + snd (shape img)) + (if oldsize \<noteq> shape img then 1 else 0))"
  proof (cases "shape img' = shape img")
    case True
    with ne show ?thesis by simp
  next
    case False
    with le have "fst (shape img') + snd (shape img') < fst (shape img) + snd (shape img)"
      by (cases "shape img'"; cases "shape img") auto
    with False show ?thesis by auto
  qed
qed

declare trim_loop.simps [simp del]

lemma variance_nonneg: "0 \<le> variance xs"
  unfolding variance_def Let_def
  by (intro divide_nonneg_nonneg sum_list_nonneg) auto

lemma std_lt_code: "std_lt xs t \<longleftrightarrow> xs \<noteq> [] \<and> 0 < t \<and> variance xs < t\<^sup>2"
proof -
  have v: "0 \<le> real_of_rat (variance xs)"
    using variance_nonneg [of xs] by (simp add: zero_le_of_rat_iff)
  have "sqrt (real_of_rat (variance xs)) < real_of_rat t \<longleftrightarrow> 0 < t \<and> variance xs < t\<^sup>2"
  proof (cases "0 < t")
    case True
    then have t: "0 < real_of_rat t" by (simp add: zero_less_of_rat_iff)
    have "sqrt (real_of_rat (variance xs)) < real_of_rat t \<longleftrightarrow>
               sqrt (real_of_rat (variance xs)) < sqrt ((real_of_rat t)\<^sup>2)"
      using t by simp
    also have "\<dots> \<longleftrightarrow> real_of_rat (variance xs) < (real_of_rat t)\<^sup>2"
      by (rule real_sqrt_less_iff)
    also have "\<dots> \<longleftrightarrow> variance xs < t\<^sup>2"
      by (simp add: of_rat_less flip: of_rat_power)
    finally show ?thesis using True by simp
  next
    case False
    have "0 \<le> sqrt (real_of_rat (variance xs))" using v by simp
    moreover have "real_of_rat t \<le> 0" using False by (simp add: of_rat_le_0_iff)
    ultimately have "\<not> sqrt (real_of_rat (variance xs)) < real_of_rat t" by linarith
    with False show ?thesis by blast
  qed
  then show ?thesis unfolding std_lt_def by blast
qed

lemma trim_edge_error: "trim_edge t img = Inl e \<Longrightarrow> e = IndexError"
  by (auto simp: trim_edge_def Let_def split: if_splits)

lemma trim_pass_error: "trim_pass t img = Inl e \<Longrightarrow> e = IndexError"
  by (auto simp: trim_pass_def bind_err_def split: sum.splits dest: trim_edge_error)

lemma trim_loop_error: "trim_loop t oldsize img = Inl e \<Longrightarrow> e = IndexError"
proof (induction t oldsize img rule: trim_loop.induct)
  case (1 t oldsize img)
  have ne: "oldsize \<noteq> shape img"
    using "1.prems" by (subst (asm) trim_loop.simps) (simp split: if_splits)
  show ?case
  proof (cases "trim_pass t img")
    case (Inl e')
    have "trim_loop t oldsize img = Inl e'"
      by (subst trim_loop.simps) (simp add: ne Inl)
    with "1.prems" trim_pass_error [OF Inl] show ?thesis by simp
  next
    case (Inr img')
    have "trim_loop t oldsize img = trim_loop t (shape img) img'"
      by (subst trim_loop.simps) (simp add: ne Inr)
    with "1.prems" "1.IH" [OF ne Inr] show ?thesis by simp
  qed
qed

lemma trim_loop_nonempty:
  "trim_loop t oldsize img = Inr res \<Longrightarrow>
     oldsize \<noteq> shape img \<or> (0 < fst oldsize \<and> 0 < snd oldsize) \<Longrightarrow>
     0 < fst (shape res) \<and> 0 < snd (shape res)"
proof (induction t oldsize img rule: trim_loop.induct)
  case (1 t oldsize img)
  show ?case
  proof (cases "oldsize \<noteq> shape img")
    case True
    from "1.prems"(1) have "(case trim_pass t img of Inl e \<Rightarrow> Inl e
              | Inr img' \<Rightarrow> trim_loop t (shape img) img') = Inr res"
      by (subst (asm) trim_loop.simps) (simp add: True)
    then obtain img' where p: "trim_pass t img = Inr img'"
      and r: "trim_loop t (shape img) img' = Inr res"
      by (auto split: sum.splits)
    from trim_pass_shape [OF p] have "0 < fst (shape img) \<and> 0 < snd (shape img)" by simp
    then show ?thesis using "1.IH" [OF True p r] by simp
  next
    case False
    from "1.prems"(1) have "res = img"
      by (subst (asm) trim_loop.simps) (simp add: False)
    with False "1.prems"(2) show ?thesis by auto
  qed
qed

text \<open>
  Claim C6. \<open>trim_margins\<close> terminates on every image (\<open>trim_loop\<close> is a total
  function: each pass that changes the shape makes it smaller). It never returns an image
  that the trimming has emptied: on an input with a row or a column it either returns an
  image with at least one row and one column, or fails, and then with the IndexError
  that \<open>img[0, :]\<close> raises on an image without rows. That exception is the failure the
  specification calls EmptyImageError; the source has no error class of its own.
\<close>

theorem trim_margins_stops:
  assumes "shape img \<noteq> (0, 0)"
  shows "trim_margins f img = Inl IndexError \<or>
         (\<exists>res. trim_margins f img = Inr res \<and> 0 < fst (shape res) \<and> 0 < snd (shape res))"
proof (cases "trim_margins f img")
  case (Inl e)
  then have "e = IndexError" unfolding trim_margins_def by (rule trim_loop_error)
  with Inl show ?thesis by simp
next
  case (Inr res)
  then have "trim_loop (trim_std f) (0, 0) img = Inr res" by (simp add: trim_margins_def)
  from trim_loop_nonempty [OF this] assms
  have "0 < fst (shape res) \<and> 0 < snd (shape res)" by auto
  with Inr show ?thesis by simp
qed

lemma upt_small: "[0..<1] = [0]" "[0..<2] = [0, 1]"
  by (simp_all add: upt_rec numeral_2_eq_2)

lemmas trim_eval =
  trim_edge_def rot90_def std_lt_code variance_def Let_def power2_eq_square upt_small

theorem trim_margins_stops_witness:
  "shape \<lparr>rows = [[5, 5], [5, 5 :: int]], ncols = 2\<rparr> \<noteq> (0, 0) \<and>
   trim_margins (default_form\<lparr>trim_std := 1\<rparr>) \<lparr>rows = [[5, 5], [5, 5]], ncols = 2\<rparr>
     = Inl IndexError"
proof -
  let ?img = "\<lparr>rows = [[5, 5], [5, 5]], ncols = 2\<rparr> :: int array2"
  let ?f = "default_form\<lparr>trim_std := 1\<rparr>"
  have h: "shape ?img \<noteq> (0, 0)" by (simp add: shape_def)
  have e1: "trim_edge 1 ?img = Inr \<lparr>rows = [[5, 5]], ncols = 2\<rparr>"
    by (simp add: trim_eval)
  have e2: "trim_edge 1 \<lparr>rows = [[5, 5]], ncols = 2\<rparr> = Inr \<lparr>rows = [[5]], ncols = 1\<rparr>"
    by (simp add: trim_eval)
  have e3: "trim_edge 1 \<lparr>rows = [[5]], ncols = 1\<rparr> = Inr \<lparr>rows = [], ncols = 1\<rparr>"
    by (simp add: trim_eval)
  have e4: "trim_edge 1 \<lparr>rows = [] :: int list list, ncols = 1\<rparr> = Inr \<lparr>rows = [[]], ncols = 0\<rparr>"
    by (simp add: trim_eval)
  have e5: "trim_edge 1 \<lparr>rows = [[]] :: int list list, ncols = 0\<rparr> = Inl IndexError"
    by (simp add: trim_eval)
  have p1: "trim_pass 1 ?img = Inr \<lparr>rows = [[]], ncols = 0\<rparr>"
    by (simp only: trim_pass_def bind_err_def e1 e2 e3 e4 sum.case)
  have p2: "trim_pass 1 \<lparr>rows = [[]] :: int list list, ncols = 0\<rparr> = Inl IndexError"
    by (simp only: trim_pass_def bind_err_def e5 sum.case)
  have l2: "trim_loop 1 (shape ?img) \<lparr>rows = [[]], ncols = 0\<rparr> = Inl IndexError"
    by (subst trim_loop.simps) (simp add: shape_def p2)
  have l1: "trim_loop 1 (0, 0) ?img = Inl IndexError"
    by (subst trim_loop.simps) (simp add: h [symmetric] p1 l2)
  have no: "\<not> (\<exists>res. trim_margins ?f ?img = Inr res \<and> 0 < fst (shape res) \<and> 0 < snd (shape res))"
    by (simp add: trim_margins_def default_form_def l1)
  from trim_margins_stops [OF h, of ?f] no h show ?thesis by blast
qed

subsection \<open>Processing one exam\<close>

lemma bind_err_Inr: "bind_err m g = Inr y \<longleftrightarrow> (\<exists>x. m = Inr x \<and> g x = Inr y)"
  by (cases m) (simp_all add: bind_err_def)

text \<open>
  Claim C9, as the code has it. \<open>process_exam\<close> handles no exception: it returns the
  answer choice computed by \<open>choose_answers\<close> exactly when every step has succeeded,
  the diagnostics steps included (the reference-fit overlay inside \<open>fit_step\<close>, the
  bubble-means overlay, the info image and the validation image). A failure of any of
  them ends \<open>process_exam\<close> without a result.
\<close>

theorem process_exam_propagates:
  "process_exam w config = Inr choice \<longleftrightarrow>
     (\<exists>img0 img1 f1 img2 means img3.
        load_image w = Inr img0 \<and>
        trim_margins (calc_coords config) img0 = Inr img1 \<and>
        check_size (calc_coords config) img1 = Inr () \<and>
        fit_step (calc_coords config) img1 = Inr (f1, img2) \<and>
        get_bubble_means f1 img2 = Inr means \<and>
        choose_answers f1 means = Inr choice \<and>
        overlay_bubble_means f1 img2 means = Inr img3 \<and>
        write_info_image w f1 img3 = Inr () \<and>
        write_validation w img3 = Inr ())"
  by (auto simp: process_exam_def Let_def bind_err_Inr)

lemma sheet_calc_coords: "calc_coords (sheet_config a b) = sheet_form a b"
  by (simp add: calc_coords_def default_form_def coords_cell_def arange_def astype_i_def
      upt_small numeral_2_eq_2 upt_rec)

lemma sheet_trim: "trim_margins (sheet_form a b) sheet_img = Inr sheet_img"
proof -
  have e1: "trim_edge 0 sheet_img = Inr \<lparr>rows = [[9, 0], [0, 9]], ncols = 2\<rparr>"
    by (simp add: trim_eval)
  have e2: "trim_edge 0 \<lparr>rows = [[9, 0], [0, 9]], ncols = 2\<rparr> = Inr sheet_img"
    by (simp add: trim_eval)
  have p: "trim_pass 0 sheet_img = Inr sheet_img"
    by (simp only: trim_pass_def bind_err_def e1 e2 sum.case)
  have l2: "trim_loop 0 (shape sheet_img) sheet_img = Inr sheet_img"
    by (subst trim_loop.simps) simp
  have ne: "(0, 0) \<noteq> shape sheet_img" by (simp add: shape_def)
  have "trim_loop 0 (0, 0) sheet_img = Inr sheet_img"
    by (subst trim_loop.simps) (simp add: ne p l2)
  then show ?thesis by (simp add: trim_margins_def)
qed

lemma sheet_check_size: "check_size (sheet_form a b) sheet_img = Inr ()"
  by (simp add: check_size_def shape_def pctdiff_def)

lemma sheet_fit_step: "fit_step (sheet_form a b) sheet_img = Inr ((sheet_form a b), sheet_img)"
  by (simp add: fit_step_def)

lemma sheet_means:
  "get_bubble_means (sheet_form a b) sheet_img = Inr \<lparr>rows = [[Fin 0, Fin 255]], ncols = 2\<rparr>"
  by (simp add: get_bubble_means_def binarize_def arange_def upt_small coords_at_def
      bind_err_def slice2_def pyslice_def slice_bound_def mean_def Let_def)

lemma sheet_choice:
  "choose_answers (sheet_form a b) \<lparr>rows = [[Fin 0, Fin 255]], ncols = 2\<rparr> = Inr [0]"
  by (simp add: choose_answers_def argmin_row_def)

lemma sheet_overlay:
  "overlay_bubble_means (sheet_form a b) sheet_img \<lparr>rows = [[Fin 0, Fin 255]], ncols = 2\<rparr>
     = Inr \<lparr>rows = [[0, 255], [9, 0]], ncols = 2\<rparr>"
  by (simp add: overlay_bubble_means_def overlay_cell_def arange_def upt_small coords_at_def
      means_at_def bind_err_def assign2_def slice_bound_def to_uint8_def astype_i_def)


text \<open>
  Claim C9 as stated fails. On the small sheet the answer choice \<open>[0]\<close> is computed, but
  when writing the validation image fails, \<open>process_exam\<close> fails with that IOError; and
  when the info and score crops do not have the same height, \<open>hstack\<close> in
  \<open>write_info_image\<close> raises ValueError and \<open>process_exam\<close> fails although both images
  could be written.
\<close>

theorem process_exam_diagnostics_counterexample:
  "choose_answers (sheet_form None None) \<lparr>rows = [[Fin 0, Fin 255]], ncols = 2\<rparr> = Inr [0] \<and>
   process_exam \<lparr>load_image = Inr sheet_img, save_name = (\<lambda>_. Inr ()),
                  save_validation = (\<lambda>_. Inr ())\<rparr> (sheet_config None None) = Inr [0] \<and>
   process_exam \<lparr>load_image = Inr sheet_img, save_name = (\<lambda>_. Inr ()),
                  save_validation = (\<lambda>_. Inl IOError)\<rparr> (sheet_config None None)
     = Inl IOError \<and>
   process_exam \<lparr>load_image = Inr sheet_img, save_name = (\<lambda>_. Inr ()),
                  save_validation = (\<lambda>_. Inr ())\<rparr>
       (sheet_config (Some (0, 2, 0, 2)) (Some (0, 1, 0, 1)))
     = Inl ValueError"
proof -
  have wi: "write_info_image \<lparr>load_image = Inr sheet_img, save_name = (\<lambda>_. Inr ()),
                  save_validation = (\<lambda>_. Inr ())\<rparr>
              (sheet_form (Some (0, 2, 0, 2)) (Some (0, 1, 0, 1)))
              \<lparr>rows = [[0, 255], [9, 0]], ncols = 2\<rparr> = Inl ValueError"
    by (simp add: write_info_image_def rot90_def slice2_def pyslice_def slice_bound_def
        hstack_def bind_err_def upt_small)
  have wi0: "write_info_image w (sheet_form None None) img = Inr ()" for w img
    by (simp add: write_info_image_def)
  show ?thesis
    by (simp add: process_exam_def sheet_calc_coords sheet_trim sheet_check_size sheet_fit_step
        sheet_means sheet_choice sheet_overlay wi wi0 bind_err_def write_validation_def)
qed

theorem process_exam_propagates_witness:
  "process_exam \<lparr>load_image = Inr sheet_img, save_name = (\<lambda>_. Inr ()),
                  save_validation = (\<lambda>_. Inr ())\<rparr> (sheet_config None None) = Inr [0]"
proof -
  let ?w = "\<lparr>load_image = Inr sheet_img, save_name = (\<lambda>_. Inr ()),
             save_validation = (\<lambda>_. Inr ())\<rparr>"
  have "\<exists>img0 img1 f1 img2 means img3.
        load_image ?w = Inr img0 \<and>
        trim_margins (calc_coords (sheet_config None None)) img0 = Inr img1 \<and>
        check_size (calc_coords (sheet_config None None)) img1 = Inr () \<and>
        fit_step (calc_coords (sheet_config None None)) img1 = Inr (f1, img2) \<and>
        get_bubble_means f1 img2 = Inr means \<and>
        choose_answers f1 means = Inr [0] \<and>
        overlay_bubble_means f1 img2 means = Inr img3 \<and>
        write_info_image ?w f1 img3 = Inr () \<and>
        write_validation ?w img3 = Inr ()"
    unfolding sheet_calc_coords
    using sheet_trim [of None None] sheet_check_size [of None None]
      sheet_fit_step [of None None] sheet_means [of None None] sheet_choice [of None None]
      sheet_overlay [of None None]
    by (intro exI [of _ sheet_img] exI [of _ "sheet_form None None"]
          exI [of _ "\<lparr>rows = [[Fin 0, Fin 255]], ncols = 2\<rparr>"]
          exI [of _ "\<lparr>rows = [[0, 255], [9, 0]], ncols = 2\<rparr>"])
       (simp add: write_info_image_def write_validation_def)
  then show ?thesis by (rule process_exam_propagates [THEN iffD2])
qed

end
